theory Spec2Isabelle
  imports Main "HOL-Library.Word"
begin

unbundle bit_operations_syntax

section \<open>Python values\<close>

text \<open>
  The program is \<^verbatim>\<open>app.py\<close>, a Streamlit script: it persists an uploaded or recorded
  audio clip, transcribes it, appends a row to \<^verbatim>\<open>data/metadata.csv\<close> and pushes the audio
  tree and the ledger to a dataset repository. Bytes are 8-bit words, Python strings are
  \<^typ>\<open>string\<close> (ASCII), and an exception is a value: a function that can raise returns
  \<open>exn + 'a\<close> together with the world as it is at that moment.
\<close>

type_synonym byte = "8 word"

datatype exn_kind =
    ValueError | KeyError | RuntimeError | OSError | HTTPError | ParserError | EmptyDataError

datatype exn = Exn exn_kind string

text \<open>\<^verbatim>\<open>str(e)\<close>, as the f-string of \<^verbatim>\<open>transcribe_audio\<close> renders the exception.\<close>

fun str_exn :: "exn \<Rightarrow> string" where
  "str_exn (Exn k msg) = msg"

definition encode_ascii :: "string \<Rightarrow> byte list" where
  "encode_ascii s = map (\<lambda>c. of_nat (of_char c)) s"

definition decode_ascii :: "byte list \<Rightarrow> string" where
  "decode_ascii bs = map (\<lambda>b. char_of (unat b)) bs"

subsection \<open>\<^verbatim>\<open>str.split\<close> and \<^verbatim>\<open>str.lower\<close>\<close>

text \<open>
  \<^verbatim>\<open>s.split(sep)\<close> for a one-character separator: the pieces between the separators, so
  the result is never empty and \<^verbatim>\<open>[-1]\<close> never raises.
  \<^verbatim>\<open>s.lower()\<close> on ASCII: the letters A to Z go to a to z, every other character stays.
\<close>

fun split_on :: "char \<Rightarrow> string \<Rightarrow> string list" where
  "split_on sep [] = [[]]"
| "split_on sep (c # cs) =
     (if c = sep then [] # split_on sep cs
      else (let r = split_on sep cs in (c # hd r) # tl r))"

definition lower_char :: "char \<Rightarrow> char" where
  "lower_char c =
     (case map_of (zip ''ABCDEFGHIJKLMNOPQRSTUVWXYZ'' ''abcdefghijklmnopqrstuvwxyz'') c of
        None \<Rightarrow> c
      | Some d \<Rightarrow> d)"

definition lower :: "string \<Rightarrow> string" where
  "lower s = map lower_char s"

subsection \<open>\<^verbatim>\<open>uuid.uuid4()\<close> and its rendering\<close>

text \<open>
  A UUID is a 128-bit value; the f-string renders it with \<^verbatim>\<open>str\<close>, which is
  \<^verbatim>\<open>'%032x' % self.int\<close> cut into groups of 8, 4, 4, 4 and 12 hexadecimal digits joined by
  dashes. The value \<^verbatim>\<open>uuid4()\<close> returns is an argument of the functions that call it.
\<close>

type_synonym uuid = "128 word"

definition hex_digit :: "nat \<Rightarrow> char" where
  "hex_digit d = ''0123456789abcdef'' ! d"

definition nibble :: "uuid \<Rightarrow> nat \<Rightarrow> nat" where
  "nibble u i = unat (drop_bit (4 * (31 - i)) u AND 15)"

definition hex32 :: "uuid \<Rightarrow> string" where
  "hex32 u = map (\<lambda>i. hex_digit (nibble u i)) [0..<32]"

definition str_uuid :: "uuid \<Rightarrow> string" where
  "str_uuid u =
     (let h = hex32 u
      in take 8 h @ ''-'' @ take 4 (drop 8 h) @ ''-'' @ take 4 (drop 12 h) @ ''-'' @
         take 4 (drop 16 h) @ ''-'' @ drop 20 h)"

subsection \<open>\<^verbatim>\<open>os.path.join\<close>\<close>

text \<open>
  POSIX \<^verbatim>\<open>os.path.join\<close> on two components: an absolute second component replaces the
  first; otherwise one separator stands between them.
\<close>

definition path_join :: "string \<Rightarrow> string \<Rightarrow> string" where
  "path_join a b =
     (if b \<noteq> [] \<and> hd b = CHR ''/'' then b
      else if a = [] \<or> last a = CHR ''/'' then a @ b
      else a @ ''/'' @ b)"

text \<open>A directory with its trailing separator, as \<^verbatim>\<open>os.path.join\<close> completes it.\<close>

definition with_sep :: "string \<Rightarrow> string" where
  "with_sep d = (if d = [] \<or> last d = CHR ''/'' then d else d @ ''/'')"

section \<open>Data frames\<close>

text \<open>
  A pandas frame as the program uses it: named columns and rows of cells, under the default
  positional index (every frame here is built by \<^verbatim>\<open>DataFrame([...])\<close>, \<^verbatim>\<open>read_csv\<close> or
  \<^verbatim>\<open>concat(..., ignore_index=True)\<close>). A cell is a missing value, a string, or a number
  or truth value that \<^verbatim>\<open>read_csv\<close> inferred, kept as the text \<^verbatim>\<open>to_csv\<close> prints for it.
\<close>

datatype cell = NaN | Str string | Scalar string

record dataframe =
  columns :: "string list"
  rows :: "cell list list"

definition cell_at :: "string list \<Rightarrow> cell list \<Rightarrow> string \<Rightarrow> cell" where
  "cell_at cols r c = (case map_of (zip cols r) c of None \<Rightarrow> NaN | Some v \<Rightarrow> v)"

text \<open>The cell of row \<open>i\<close> under column \<open>c\<close>.\<close>

definition df_cell :: "dataframe \<Rightarrow> nat \<Rightarrow> string \<Rightarrow> cell" where
  "df_cell df i c = cell_at (columns df) (rows df ! i) c"

text \<open>
  The cells of a row under the columns \<open>cols'\<close>, with a missing value where the row's frame
  has no such column.
\<close>

definition reindex :: "string list \<Rightarrow> string list \<Rightarrow> cell list \<Rightarrow> cell list" where
  "reindex cols' cols r = map (cell_at cols r) cols'"

text \<open>
  \<^verbatim>\<open>pd.concat([df, new_row], ignore_index=True)\<close>: the rows of the first frame, then those of
  the second, over the union of the columns in order of first appearance; a row has a
  missing value under a column its frame does not have. A column of whole numbers cannot
  hold a missing value: when the other frame has rows and does not have the column, pandas
  makes the column floating-point, and \<^verbatim>\<open>to_csv\<close> prints its numbers with \<^verbatim>\<open>.0\<close> from then
  on (the digits are the same up to 9007199254740992). A column of whole numbers is one
  whose cells are all numbers printed as digits, with a minus sign or without.
\<close>

definition int_text :: "string \<Rightarrow> bool" where
  "int_text s =
     (let d = (if s \<noteq> [] \<and> hd s = CHR ''-'' then tl s else s)
      in d \<noteq> [] \<and> list_all (\<lambda>c. c \<in> set ''0123456789'') d)"

definition int_column :: "dataframe \<Rightarrow> string \<Rightarrow> bool" where
  "int_column df c =
     (rows df \<noteq> [] \<and>
      list_all (\<lambda>r. case cell_at (columns df) r c of Scalar s \<Rightarrow> int_text s | _ \<Rightarrow> False)
        (rows df))"

fun as_float :: "cell \<Rightarrow> cell" where
  "as_float (Scalar s) = Scalar (s @ ''.0'')"
| "as_float NaN = NaN"
| "as_float (Str s) = Str s"

text \<open>The cells of a row of \<open>df\<close> under the columns of the result; \<open>other\<close> is the other frame.\<close>

definition concat_row :: "dataframe \<Rightarrow> dataframe \<Rightarrow> string list \<Rightarrow> cell list \<Rightarrow> cell list" where
  "concat_row df other cols r =
     map (\<lambda>c. if c \<notin> set (columns other) \<and> rows other \<noteq> [] \<and> int_column df c
               then as_float (cell_at (columns df) r c) else cell_at (columns df) r c)
       cols"

definition pd_concat :: "dataframe \<Rightarrow> dataframe \<Rightarrow> dataframe" where
  "pd_concat df1 df2 =
     (let cols = columns df1 @ filter (\<lambda>c. c \<notin> set (columns df1)) (columns df2)
      in \<lparr>columns = cols,
          rows = map (concat_row df1 df2 cols) (rows df1) @
                 map (concat_row df2 df1 cols) (rows df2)\<rparr>)"

section \<open>The environment and the world\<close>

text \<open>
  What the script reads at start-up and the libraries it calls without implementing them:
  \<^verbatim>\<open>BASE_DIR\<close>, the two secrets, the speech model's \<^verbatim>\<open>transcribe\<close> (it reads the file at
  a path and returns a dictionary or raises an \<^verbatim>\<open>Exception\<close>), and pandas'
  \<^verbatim>\<open>read_csv\<close> and \<^verbatim>\<open>to_csv\<close> (its first argument is the \<^verbatim>\<open>index\<close> keyword).
\<close>

record env =
  base_dir :: string
  hf_token :: string
  hf_repo_id :: string
  model_transcribe :: "(string \<Rightarrow> byte list option) \<Rightarrow> string \<Rightarrow> exn + (string \<Rightarrow> string option)"
  read_csv :: "byte list \<Rightarrow> exn + dataframe"
  to_csv :: "bool \<Rightarrow> dataframe \<Rightarrow> byte list"

datatype repo_type = Model | Dataset | Space

text \<open>The calls made to the hosted API, with their arguments, in the order made.\<close>

datatype api_call =
    CreateRepo string repo_type bool string
  | UploadFolder string string repo_type string
  | UploadFile string string string repo_type string

text \<open>What the page shows; the messages are given without their emoji.\<close>

datatype ui_event =
    Audio | Success string | Error string | Info string | Markdown string | Written string

text \<open>
  The world: the local files (a path holds contents or nothing; the three directories are
  made when the script starts), the remote repositories (a repository is a map from the
  path in the repository to contents), the calls made to the hosted API, and the page.
\<close>

record world =
  files :: "string \<Rightarrow> byte list option"
  hub :: "repo_type \<times> string \<Rightarrow> (string \<Rightarrow> byte list option) option"
  calls :: "api_call list"
  ui :: "ui_event list"

text \<open>Sequencing: an exception of the first step ends the run with the world as it is.\<close>

definition and_then ::
  "(exn + 'a) \<times> world \<Rightarrow> ('a \<Rightarrow> world \<Rightarrow> (exn + 'b) \<times> world) \<Rightarrow> (exn + 'b) \<times> world" where
  "and_then r k = (case r of (Inl e, w) \<Rightarrow> (Inl e, w) | (Inr x, w) \<Rightarrow> k x w)"

subsection \<open>Paths\<close>

text \<open>
  The constants of the script, from \<^verbatim>\<open>BASE_DIR\<close>; \<^verbatim>\<open>os.path.join\<close> of three components
  is two joins.
\<close>

definition UPLOADED_DIR :: "env \<Rightarrow> string" where
  "UPLOADED_DIR env = path_join (path_join (base_dir env) ''audio'') ''uploaded''"

definition RECORDED_DIR :: "env \<Rightarrow> string" where
  "RECORDED_DIR env = path_join (path_join (base_dir env) ''audio'') ''recorded''"

definition DATA_DIR :: "env \<Rightarrow> string" where
  "DATA_DIR env = path_join (base_dir env) ''data''"

definition METADATA_PATH :: "env \<Rightarrow> string" where
  "METADATA_PATH env = path_join (DATA_DIR env) ''metadata.csv''"

section \<open>Helpers\<close>

subsection \<open>\<^verbatim>\<open>save_uploaded_file\<close>\<close>

text \<open>The uploaded file: its name and the bytes \<^verbatim>\<open>read()\<close> returns.\<close>

record uploaded_file =
  name :: string
  content :: "byte list"

definition save_uploaded_file ::
  "env \<Rightarrow> uuid \<Rightarrow> uploaded_file \<Rightarrow> world \<Rightarrow> (exn + string \<times> string \<times> string) \<times> world" where
  "save_uploaded_file env u uploaded w =
     (let ext = lower (last (split_on (CHR ''.'') (name uploaded)));
          filename = str_uuid u @ ''.'' @ ext;
          save_path = path_join (UPLOADED_DIR env) filename
      in (Inr (save_path, filename, ''uploaded''),
          w\<lparr>files := (files w)(save_path \<mapsto> content uploaded)\<rparr>))"

subsection \<open>\<^verbatim>\<open>save_recorded_audio\<close>\<close>

text \<open>
  \<^verbatim>\<open>np.frombuffer(audio_bytes, np.int16)\<close>: consecutive byte pairs read as 16-bit values
  in the machine's byte order, taken to be little-endian; a buffer whose size is not a
  multiple of the element size raises \<^verbatim>\<open>ValueError\<close>. \<open>tobytes\<close> is the way back.
\<close>

fun int16_le :: "byte list \<Rightarrow> 16 word list" where
  "int16_le (lo # hi # bs) = word_cat hi lo # int16_le bs"
| "int16_le bs = []"

definition frombuffer :: "byte list \<Rightarrow> exn + 16 word list" where
  "frombuffer buf =
     (if length buf mod 2 \<noteq> 0
      then Inl (Exn ValueError ''buffer size must be a multiple of element size'')
      else Inr (int16_le buf))"

definition tobytes :: "16 word list \<Rightarrow> byte list" where
  "tobytes xs = concat (map (\<lambda>x. [ucast x, ucast (drop_bit 8 x)]) xs)"

text \<open>
  \<^verbatim>\<open>struct.pack\<close> with the formats \<^verbatim>\<open><H\<close>, \<^verbatim>\<open><I\<close> and \<^verbatim>\<open><Q\<close>: the two, four and eight bytes
  of \<open>n\<close>, least significant first, for \<open>n\<close> in range.
\<close>

definition le16 :: "nat \<Rightarrow> byte list" where
  "le16 n = [of_nat n, of_nat (n div 256)]"

definition le32 :: "nat \<Rightarrow> byte list" where
  "le32 n = [of_nat n, of_nat (n div 256), of_nat (n div 65536), of_nat (n div 16777216)]"

fun le_bytes :: "nat \<Rightarrow> nat \<Rightarrow> byte list" where
  "le_bytes 0 n = []"
| "le_bytes (Suc k) n = of_nat n # le_bytes k (n div 256)"

definition le64 :: "nat \<Rightarrow> byte list" where
  "le64 n = le_bytes 8 n"

text \<open>
  \<^verbatim>\<open>scipy.io.wavfile.write(filename, rate, data)\<close> for a one-dimensional \<^verbatim>\<open>int16\<close> array,
  as SciPy has it from release 1.14 on. It opens the file for writing and builds the RIFF
  header and the \<^verbatim>\<open>fmt\<close> chunk (PCM, one channel, 16 bits). When the file size less 8 does
  not fit a 32-bit field it builds an RF64 header in its place: the tag \<^verbatim>\<open>RF64\<close>, the size
  field set to \<^verbatim>\<open>0xFFFFFFFF\<close>, and a \<^verbatim>\<open>ds64\<close> chunk of 28 bytes that holds the 64-bit file
  size (filled in last), the 64-bit size of the data, the number of samples and an empty
  table. It writes the header, the \<^verbatim>\<open>data\<close> tag, the data size (or \<^verbatim>\<open>0xFFFFFFFF\<close> when it
  does not fit) and the samples, and last writes the file size less 8 at offset 4, for RF64
  at offset 20. An array holds at most \<^verbatim>\<open>sys.maxsize\<close> bytes, so the 64-bit fields are in
  range. (Releases before 1.14 raise \<^verbatim>\<open>ValueError\<close> where this one turns to RF64.)
\<close>

definition fmt_chunk_data :: "nat \<Rightarrow> byte list" where
  "fmt_chunk_data rate =
     le16 1 @ le16 1 @ le32 rate @ le32 (rate * 2 * 1) @ le16 (1 * 2) @ le16 16"

definition header_data :: "nat \<Rightarrow> byte list" where
  "header_data rate =
     encode_ascii ''RIFF'' @ [0, 0, 0, 0] @ encode_ascii ''WAVE'' @ encode_ascii ''fmt '' @
     le32 (length (fmt_chunk_data rate)) @ fmt_chunk_data rate"

definition rf64_header_data :: "nat \<Rightarrow> nat \<Rightarrow> nat \<Rightarrow> byte list" where
  "rf64_header_data rate nbytes nframes =
     encode_ascii ''RF64'' @ [0xFF, 0xFF, 0xFF, 0xFF] @ encode_ascii ''WAVE'' @
     encode_ascii ''ds64'' @ le32 28 @ le64 0 @ le64 nbytes @ le64 nframes @ le32 0 @
     encode_ascii ''fmt '' @ le32 (length (fmt_chunk_data rate)) @ fmt_chunk_data rate"

definition wavfile_write ::
  "string \<Rightarrow> nat \<Rightarrow> 16 word list \<Rightarrow> world \<Rightarrow> (exn + unit) \<times> world" where
  "wavfile_write filename rate samples w =
     (let nbytes = 2 * length samples;
          resulting_file_size = length (header_data rate) + 4 + 4 + nbytes;
          is_rf64 = resulting_file_size - 8 > 0xFFFFFFFF;
          header = (if is_rf64 then rf64_header_data rate nbytes (length samples)
                    else header_data rate);
          body = header @ encode_ascii ''data'' @ le32 (min nbytes 4294967295) @ tobytes samples
      in (Inr (),
          w\<lparr>files := (files w)(filename \<mapsto>
               (if is_rf64 then take 20 body @ le64 (length body - 8) @ drop 28 body
                else take 4 body @ le32 (length body - 8) @ drop 8 body))\<rparr>))"

definition save_recorded_audio ::
  "env \<Rightarrow> uuid \<Rightarrow> byte list \<Rightarrow> world \<Rightarrow> (exn + string \<times> string \<times> string) \<times> world" where
  "save_recorded_audio env u audio_bytes w =
     (let filename = str_uuid u @ ''.wav'';
          save_path = path_join (RECORDED_DIR env) filename
      in case frombuffer audio_bytes of
           Inl e \<Rightarrow> (Inl e, w)
         | Inr audio_np \<Rightarrow>
             and_then (wavfile_write save_path 44100 audio_np w)
               (\<lambda>_ w'. (Inr (save_path, filename, ''recorded''), w')))"

subsection \<open>\<^verbatim>\<open>transcribe_audio\<close>\<close>

text \<open>
  \<^verbatim>\<open>except Exception\<close> covers the model call and the lookup \<^verbatim>\<open>result["text"]\<close>; the
  function reports on the page and returns \<^verbatim>\<open>None\<close>.
\<close>

definition transcribe_audio :: "env \<Rightarrow> string \<Rightarrow> world \<Rightarrow> string option \<times> world" where
  "transcribe_audio env audio_path w =
     (case model_transcribe env (files w) audio_path of
        Inl e \<Rightarrow> (None, w\<lparr>ui := ui w @ [Error (''Transcription failed: '' @ str_exn e)]\<rparr>)
      | Inr result \<Rightarrow>
          (case result ''text'' of
             None \<Rightarrow>
               (None, w\<lparr>ui := ui w @
                  [Error (''Transcription failed: '' @
                     str_exn (Exn KeyError ([CHR 0x27] @ ''text'' @ [CHR 0x27])))]\<rparr>)
           | Some t \<Rightarrow> (Some t, w)))"

subsection \<open>\<^verbatim>\<open>save_metadata\<close>\<close>

definition new_row :: "string \<Rightarrow> string \<Rightarrow> string \<Rightarrow> dataframe" where
  "new_row audio_type audio_filename transcription =
     \<lparr>columns = [''audio'', ''text''],
      rows = [[Str (''audio/'' @ audio_type @ ''/'' @ audio_filename), Str transcription]]\<rparr>"

text \<open>The frame \<^verbatim>\<open>df\<close> that \<^verbatim>\<open>save_metadata\<close> hands to \<^verbatim>\<open>to_csv\<close>.\<close>

definition metadata_frame ::
  "env \<Rightarrow> string \<Rightarrow> string \<Rightarrow> string \<Rightarrow> world \<Rightarrow> exn + dataframe" where
  "metadata_frame env audio_type audio_filename transcription w =
     (case files w (METADATA_PATH env) of
        Some csv \<Rightarrow>
          (case read_csv env csv of
             Inl e \<Rightarrow> Inl e
           | Inr df \<Rightarrow> Inr (pd_concat df (new_row audio_type audio_filename transcription)))
      | None \<Rightarrow> Inr (new_row audio_type audio_filename transcription))"

definition save_metadata ::
  "env \<Rightarrow> string \<Rightarrow> string \<Rightarrow> string \<Rightarrow> world \<Rightarrow> (exn + unit) \<times> world" where
  "save_metadata env audio_type audio_filename transcription w =
     (case metadata_frame env audio_type audio_filename transcription w of
        Inl e \<Rightarrow> (Inl e, w)
      | Inr df \<Rightarrow>
          (Inr (), w\<lparr>files := (files w)(METADATA_PATH env \<mapsto> to_csv env False df)\<rparr>))"

subsection \<open>\<^verbatim>\<open>push_to_huggingface\<close>\<close>

text \<open>
  The three operations of the hosted API, by their call contract (network and credential
  failures are not modelled). \<^verbatim>\<open>create_repo\<close> makes an empty repository when there is none
  of that type and id; when there is one it does nothing if \<^verbatim>\<open>exist_ok\<close>, and raises
  otherwise. \<^verbatim>\<open>upload_folder\<close> puts every local file under the folder at its path relative
  to the folder. \<^verbatim>\<open>upload_file\<close> puts one local file at \<^verbatim>\<open>path_in_repo\<close>.
\<close>

definition create_repo ::
  "string \<Rightarrow> repo_type \<Rightarrow> bool \<Rightarrow> string \<Rightarrow> world \<Rightarrow> (exn + unit) \<times> world" where
  "create_repo repo_id rtype exist_ok token w =
     (let w1 = w\<lparr>calls := calls w @ [CreateRepo repo_id rtype exist_ok token]\<rparr>
      in case hub w1 (rtype, repo_id) of
           None \<Rightarrow> (Inr (), w1\<lparr>hub := (hub w1)((rtype, repo_id) \<mapsto> (\<lambda>p. None))\<rparr>)
         | Some r \<Rightarrow>
             if exist_ok then (Inr (), w1)
             else (Inl (Exn HTTPError ''409 Conflict''), w1))"

definition upload_folder ::
  "string \<Rightarrow> string \<Rightarrow> repo_type \<Rightarrow> string \<Rightarrow> world \<Rightarrow> (exn + unit) \<times> world" where
  "upload_folder folder_path repo_id rtype token w =
     (let w1 = w\<lparr>calls := calls w @ [UploadFolder folder_path repo_id rtype token]\<rparr>
      in case hub w1 (rtype, repo_id) of
           None \<Rightarrow> (Inl (Exn HTTPError ''404 Not Found''), w1)
         | Some r \<Rightarrow>
             (Inr (), w1\<lparr>hub := (hub w1)((rtype, repo_id) \<mapsto>
                (\<lambda>p. if p = [] then r p
                     else (case files w1 (folder_path @ ''/'' @ p) of
                             None \<Rightarrow> r p
                           | Some b \<Rightarrow> Some b)))\<rparr>))"

definition upload_file ::
  "string \<Rightarrow> string \<Rightarrow> string \<Rightarrow> repo_type \<Rightarrow> string \<Rightarrow> world \<Rightarrow> (exn + unit) \<times> world" where
  "upload_file path_or_fileobj path_in_repo repo_id rtype token w =
     (let w1 = w\<lparr>calls := calls w @
                 [UploadFile path_or_fileobj path_in_repo repo_id rtype token]\<rparr>
      in case files w1 path_or_fileobj of
           None \<Rightarrow> (Inl (Exn ValueError ''Provided path is not a file''), w1)
         | Some b \<Rightarrow>
             (case hub w1 (rtype, repo_id) of
                None \<Rightarrow> (Inl (Exn HTTPError ''404 Not Found''), w1)
              | Some r \<Rightarrow>
                  (Inr (), w1\<lparr>hub := (hub w1)((rtype, repo_id) \<mapsto> r(path_in_repo \<mapsto> b))\<rparr>)))"

definition push_to_huggingface :: "env \<Rightarrow> world \<Rightarrow> (exn + unit) \<times> world" where
  "push_to_huggingface env w =
     and_then (create_repo (hf_repo_id env) Dataset True (hf_token env) w)
       (\<lambda>_ w1.
          (let audio_folder_path = path_join (base_dir env) ''audio'';
               metadata_path = METADATA_PATH env
           in and_then (upload_folder audio_folder_path (hf_repo_id env) Dataset (hf_token env) w1)
                (\<lambda>_ w2. upload_file metadata_path ''metadata.csv'' (hf_repo_id env) Dataset
                           (hf_token env) w2)))"

section \<open>The two tabs\<close>

text \<open>
  Both tabs run the same steps on the persisted sample (lines 140--151 and 170--181 of the
  script): transcribe; then, under \<^verbatim>\<open>if transcription:\<close>, show the text, append the ledger
  row, push, and report. \<^verbatim>\<open>None\<close> and the empty string are both false.
\<close>

definition transcribe_and_publish ::
  "env \<Rightarrow> string \<Rightarrow> string \<times> string \<times> string \<Rightarrow> world \<Rightarrow> (exn + unit) \<times> world" where
  "transcribe_and_publish env done_msg saved w =
     (case saved of (audio_path, filename, audio_type) \<Rightarrow>
        (case transcribe_audio env audio_path w of (transcription, w1) \<Rightarrow>
           (case transcription of
              None \<Rightarrow> (Inr (), w1)
            | Some t \<Rightarrow>
                if t = [] then (Inr (), w1)
                else
                  and_then
                    (save_metadata env audio_type filename t
                       (w1\<lparr>ui := ui w1 @ [Markdown ''### Transcription'', Written t]\<rparr>))
                    (\<lambda>_ w2.
                       and_then (push_to_huggingface env w2)
                         (\<lambda>_ w3. (Inr (), w3\<lparr>ui := ui w3 @ [Success done_msg]\<rparr>))))))"

text \<open>
  The record tab: \<^verbatim>\<open>audio_recorder\<close> returns \<^verbatim>\<open>None\<close> or the recording's bytes, and
  \<^verbatim>\<open>if audio_bytes:\<close> is false for both \<^verbatim>\<open>None\<close> and empty bytes.
\<close>

definition record_hint :: string where
  "record_hint =
     ''Click the button above to record your voice. '' @
     ''Allow microphone access in your browser.''"

definition record_tab :: "env \<Rightarrow> uuid \<Rightarrow> byte list option \<Rightarrow> world \<Rightarrow> (exn + unit) \<times> world" where
  "record_tab env u audio_bytes w =
     (case audio_bytes of
        None \<Rightarrow> (Inr (), w\<lparr>ui := ui w @ [Info record_hint]\<rparr>)
      | Some ab \<Rightarrow>
          if ab = [] then (Inr (), w\<lparr>ui := ui w @ [Info record_hint]\<rparr>)
          else
            and_then
              (save_recorded_audio env u ab
                 (w\<lparr>ui := ui w @ [Audio, Success ''Audio recorded successfully!'']\<rparr>))
              (transcribe_and_publish env ''Recorded audio saved & uploaded!''))"

text \<open>
  The uploader is called with \<^verbatim>\<open>type=["wav", "mp3", "m4a", "mp4"]\<close> (line 163). Streamlit
  completes the list by the pairs of extensions it knows, of which \<^verbatim>\<open>mp4\<close> brings
  \<^verbatim>\<open>mpeg4\<close>, and passes a file only when its name ends, whatever its case, with a dot and
  one of these extensions.
\<close>

definition UPLOAD_TYPES :: "string list" where
  "UPLOAD_TYPES = [''wav'', ''mp3'', ''m4a'', ''mp4'']"

definition accepted_types :: "string list" where
  "accepted_types = UPLOAD_TYPES @ [''mpeg4'']"

definition uploader_accepts :: "string \<Rightarrow> bool" where
  "uploader_accepts nm =
     (CHR ''.'' \<in> set nm \<and> lower (last (split_on (CHR ''.'') nm)) \<in> set accepted_types)"

text \<open>The upload tab: the uploader returns \<^verbatim>\<open>None\<close> or a file.\<close>

definition upload_tab ::
  "env \<Rightarrow> uuid \<Rightarrow> uploaded_file option \<Rightarrow> world \<Rightarrow> (exn + unit) \<times> world" where
  "upload_tab env u uploaded w =
     (case uploaded of
        None \<Rightarrow> (Inr (), w)
      | Some f \<Rightarrow>
          and_then (save_uploaded_file env u f w)
            (\<lambda>saved w1.
               transcribe_and_publish env ''Uploaded audio saved & uploaded!'' saved
                 (w1\<lparr>ui := ui w1 @ [Audio]\<rparr>)))"

section \<open>Reading a WAV file back\<close>

text \<open>
  The decoder the round trip of a recording is stated against: a reader of RIFF/WAVE and
  RF64 files. For RIFF it checks the two tags and takes the chunk area the 32-bit size field
  gives. For RF64 it checks the tags and the \<^verbatim>\<open>ds64\<close> chunk that follows them, and takes from
  that chunk the 64-bit file size, which gives the chunk area, and the 64-bit size of the
  data, which stands for the size field of the \<^verbatim>\<open>data\<close> chunk. It walks the chunks (each an
  id, a 32-bit size and a payload padded to even length), keeps the \<^verbatim>\<open>fmt\<close> chunk and
  returns the sample rate and the samples of the \<^verbatim>\<open>data\<close> chunk when the format is
  16-bit mono PCM.
\<close>

definition le_nat :: "byte list \<Rightarrow> nat" where
  "le_nat bs = foldr (\<lambda>b n. unat b + 256 * n) bs 0"

record wav_fmt =
  format_tag :: nat
  channels :: nat
  sample_rate :: nat
  bits_per_sample :: nat

definition parse_fmt :: "byte list \<Rightarrow> wav_fmt" where
  "parse_fmt p =
     \<lparr>format_tag = le_nat (take 2 p), channels = le_nat (take 2 (drop 2 p)),
      sample_rate = le_nat (take 4 (drop 4 p)), bits_per_sample = le_nat (take 2 (drop 14 p))\<rparr>"

function read_chunks ::
  "byte list \<Rightarrow> nat option \<Rightarrow> wav_fmt option \<Rightarrow> exn + nat \<times> 16 word list" where
  "read_chunks bs ds64 fmt =
     (if length bs < 8 then Inl (Exn ValueError ''no data chunk'')
      else
        (let chunk_id = take 4 bs;
             n = (case ds64 of
                    Some data_size \<Rightarrow>
                      if chunk_id = encode_ascii ''data'' then data_size
                      else le_nat (take 4 (drop 4 bs))
                  | None \<Rightarrow> le_nat (take 4 (drop 4 bs)));
             payload = take n (drop 8 bs);
             rest = drop (8 + n + n mod 2) bs
         in if chunk_id = encode_ascii ''fmt ''
            then (if length payload < 16 then Inl (Exn ValueError ''fmt chunk too short'')
                  else read_chunks rest ds64 (Some (parse_fmt payload)))
            else if chunk_id = encode_ascii ''data''
            then (case fmt of
                    None \<Rightarrow> Inl (Exn ValueError ''no fmt chunk before data'')
                  | Some f \<Rightarrow>
                      if format_tag f = 1 \<and> channels f = 1 \<and> bits_per_sample f = 16 \<and>
                         length payload = n
                      then (case frombuffer payload of
                              Inl e \<Rightarrow> Inl e
                            | Inr samples \<Rightarrow> Inr (sample_rate f, samples))
                      else Inl (Exn ValueError ''not complete 16-bit mono PCM''))
            else read_chunks rest ds64 fmt))"
  by pat_completeness auto

termination
  by (relation "measure (\<lambda>(bs, ds64, fmt). length bs)") auto

definition wavfile_read :: "byte list \<Rightarrow> exn + nat \<times> 16 word list" where
  "wavfile_read bs =
     (if 12 \<le> length bs \<and> take 4 bs = encode_ascii ''RIFF'' \<and>
         take 4 (drop 8 bs) = encode_ascii ''WAVE''
      then read_chunks (take (le_nat (take 4 (drop 4 bs)) - 4) (drop 12 bs)) None None
      else if 48 \<le> length bs \<and> take 4 bs = encode_ascii ''RF64'' \<and>
              take 4 (drop 8 bs) = encode_ascii ''WAVE'' \<and>
              take 4 (drop 12 bs) = encode_ascii ''ds64''
      then (let ds64_size = le_nat (take 4 (drop 16 bs));
                riff_size = le_nat (take 8 (drop 20 bs));
                data_size = le_nat (take 8 (drop 28 bs))
            in read_chunks (take (riff_size - 4 - (8 + ds64_size)) (drop (20 + ds64_size) bs))
                 (Some data_size) None)
      else Inl (Exn ValueError ''not a RIFF/WAVE file''))"

section \<open>An executable instance of the environment\<close>

text \<open>
  A small comma-separated codec for \<^verbatim>\<open>to_csv\<close> and \<^verbatim>\<open>read_csv\<close>: a header line and one
  line per row, an empty field for a missing value, no quoting. It serves to run the
  program on concrete inputs; the theorems hold for every environment.
\<close>

fun join_with :: "'a list \<Rightarrow> 'a list list \<Rightarrow> 'a list" where
  "join_with sep [] = []"
| "join_with sep [x] = x"
| "join_with sep (x # y # ys) = x @ sep @ join_with sep (y # ys)"

fun show_nat :: "nat \<Rightarrow> string" where
  "show_nat n =
     (if n < 10 then [''0123456789'' ! n]
      else show_nat (n div 10) @ [''0123456789'' ! (n mod 10)])"

fun render_cell :: "cell \<Rightarrow> string" where
  "render_cell NaN = []"
| "render_cell (Str s) = s"
| "render_cell (Scalar s) = s"

definition parse_cell :: "string \<Rightarrow> cell" where
  "parse_cell s = (if s = [] then NaN else Str s)"

definition plain_to_csv :: "bool \<Rightarrow> dataframe \<Rightarrow> byte list" where
  "plain_to_csv index df =
     encode_ascii (concat (map (\<lambda>fields. join_with '','' fields @ [CHR 0x0A])
       (((if index then [[]] else []) @ columns df) #
        map (\<lambda>(i, r). (if index then [show_nat i] else []) @ map render_cell r)
          (enumerate 0 (rows df)))))"

definition plain_read_csv :: "byte list \<Rightarrow> exn + dataframe" where
  "plain_read_csv csv =
     (case filter (\<lambda>l. l \<noteq> []) (split_on (CHR 0x0A) (decode_ascii csv)) of
        [] \<Rightarrow> Inl (Exn ParserError ''No columns to parse from file'')
      | h # ls \<Rightarrow>
          Inr \<lparr>columns = split_on (CHR '','') h,
               rows = map (\<lambda>l. map parse_cell (split_on (CHR '','') l)) ls\<rparr>)"

text \<open>The environment, for a given speech model; and three models.\<close>

definition demo_env ::
  "((string \<Rightarrow> byte list option) \<Rightarrow> string \<Rightarrow> exn + (string \<Rightarrow> string option)) \<Rightarrow> env" where
  "demo_env m =
     \<lparr>base_dir = ''/app'', hf_token = ''hf_token'', hf_repo_id = ''user/voices'',
      model_transcribe = m, read_csv = plain_read_csv, to_csv = plain_to_csv\<rparr>"

definition model_hello ::
  "(string \<Rightarrow> byte list option) \<Rightarrow> string \<Rightarrow> exn + (string \<Rightarrow> string option)" where
  "model_hello fs p = Inr [''text'' \<mapsto> '' hello'', ''language'' \<mapsto> ''en'']"

definition model_silent ::
  "(string \<Rightarrow> byte list option) \<Rightarrow> string \<Rightarrow> exn + (string \<Rightarrow> string option)" where
  "model_silent fs p = Inr [''text'' \<mapsto> [], ''language'' \<mapsto> ''en'']"

definition model_broken ::
  "(string \<Rightarrow> byte list option) \<Rightarrow> string \<Rightarrow> exn + (string \<Rightarrow> string option)" where
  "model_broken fs p = Inl (Exn RuntimeError ''Failed to load audio'')"

definition empty_world :: world where
  "empty_world = \<lparr>files = (\<lambda>p. None), hub = (\<lambda>k. None), calls = [], ui = []\<rparr>"

definition clip :: uploaded_file where
  "clip = \<lparr>name = ''clip.MP3'', content = [73, 68, 51, 4]\<rparr>"

section \<open>The CSV writer and reader of pandas\<close>

text \<open>
  \<^verbatim>\<open>to_csv\<close> and \<^verbatim>\<open>read_csv\<close> as pandas has them under the arguments the program gives (none
  but \<^verbatim>\<open>index=False\<close>), on POSIX.

  The writer hands every row to Python's \<^verbatim>\<open>csv.writer\<close> with minimal quoting: a field that
  holds a comma, a double quote, a line feed or a carriage return is put between double
  quotes, each double quote in it doubled; a missing value is written as the empty field; a
  row of one empty field is written as two double quotes; every row ends with a line feed.
\<close>

definition quote_field :: "string \<Rightarrow> string" where
  "quote_field s =
     (if list_ex (\<lambda>c. c \<in> set [CHR '','', CHR 0x22, CHR 0x0A, CHR 0x0D]) s
      then [CHR 0x22] @ concat (map (\<lambda>c. if c = CHR 0x22 then [c, c] else [c]) s) @ [CHR 0x22]
      else s)"

definition csv_row :: "string list \<Rightarrow> string" where
  "csv_row fs =
     (if fs = [[]] then [CHR 0x22, CHR 0x22] else join_with '','' (map quote_field fs)) @
     [CHR 0x0A]"

definition pandas_to_csv :: "bool \<Rightarrow> dataframe \<Rightarrow> byte list" where
  "pandas_to_csv index df =
     encode_ascii (concat (map csv_row
       (((if index then [[]] else []) @ columns df) #
        map (\<lambda>(i, r). (if index then [show_nat i] else []) @ map render_cell r)
          (enumerate 0 (rows df)))))"

text \<open>
  The reader's tokenizer goes through the characters in one of five states. A line feed or
  a carriage return ends a row, except between quotes; a line that is empty or holds only
  blanks and tabs is skipped; a comma ends a field; a double quote at the start of a field
  opens a quoted field, in which two double quotes stand for one and one double quote
  closes it. The end of the file ends the last row, and is an error inside a quoted field.
\<close>

datatype csv_state = Start_record | Start_field | In_field | In_quoted | Quote_in_quoted

fun cons_row :: "'a \<Rightarrow> exn + 'a list \<Rightarrow> exn + 'a list" where
  "cons_row r (Inl e) = Inl e"
| "cons_row r (Inr rs) = Inr (r # rs)"

definition is_eol :: "char \<Rightarrow> bool" where
  "is_eol c = (c = CHR 0x0A \<or> c = CHR 0x0D)"

definition is_space :: "char \<Rightarrow> bool" where
  "is_space c = (c = CHR '' '' \<or> c = CHR 0x09)"

definition blank_rest :: "string \<Rightarrow> bool" where
  "blank_rest cs = (case dropWhile is_space cs of [] \<Rightarrow> True | d # ds \<Rightarrow> is_eol d)"

fun tokenize :: "csv_state \<Rightarrow> string \<Rightarrow> string list \<Rightarrow> string \<Rightarrow> exn + string list list" where
  "tokenize st fld row [] =
     (case st of
        Start_record \<Rightarrow> Inr []
      | In_quoted \<Rightarrow> Inl (Exn ParserError ''Error tokenizing data'')
      | _ \<Rightarrow> Inr [row @ [fld]])"
| "tokenize st fld row (c # cs) =
     (case st of
        Start_record \<Rightarrow>
          if is_eol c then tokenize Start_record [] [] cs
          else if is_space c \<and> blank_rest cs then tokenize Start_record [] [] cs
          else if c = CHR 0x22 then tokenize In_quoted [] [] cs
          else if c = CHR '','' then tokenize Start_field [] [[]] cs
          else tokenize In_field [c] [] cs
      | Start_field \<Rightarrow>
          if is_eol c then cons_row (row @ [[]]) (tokenize Start_record [] [] cs)
          else if c = CHR 0x22 then tokenize In_quoted [] row cs
          else if c = CHR '','' then tokenize Start_field [] (row @ [[]]) cs
          else tokenize In_field [c] row cs
      | In_field \<Rightarrow>
          if is_eol c then cons_row (row @ [fld]) (tokenize Start_record [] [] cs)
          else if c = CHR '','' then tokenize Start_field [] (row @ [fld]) cs
          else tokenize In_field (fld @ [c]) row cs
      | In_quoted \<Rightarrow>
          if c = CHR 0x22 then tokenize Quote_in_quoted fld row cs
          else tokenize In_quoted (fld @ [c]) row cs
      | Quote_in_quoted \<Rightarrow>
          if c = CHR 0x22 then tokenize In_quoted (fld @ [c]) row cs
          else if is_eol c then cons_row (row @ [fld]) (tokenize Start_record [] [] cs)
          else if c = CHR '','' then tokenize Start_field [] (row @ [fld]) cs
          else tokenize In_field (fld @ [c]) row cs)"

text \<open>
  The first row names the columns. The first row of data may be longer than that: the
  fields it has too many, at its start, are then row labels in every row, which the frame
  keeps in its index and \<^verbatim>\<open>to_csv\<close> with \<^verbatim>\<open>index=False\<close> does not write. Every later row
  that is longer still is an error, and every shorter row is filled with empty fields.
  (The messages of the errors are given without their detail.)

  With \<^verbatim>\<open>na_values\<close> not given and \<^verbatim>\<open>keep_default_na=True\<close>, a field that is one of the
  strings below is read as a missing value, quoted or not.
\<close>

definition NA_VALUES :: "string list" where
  "NA_VALUES =
     ['''', ''#N/A'', ''#N/A N/A'', ''#NA'', ''-1.#IND'', ''-1.#QNAN'', ''-NaN'', ''-nan'',
      ''1.#IND'', ''1.#QNAN'', ''<NA>'', ''N/A'', ''NA'', ''NULL'', ''NaN'', ''None'', ''n/a'',
      ''nan'', ''null'']"

definition read_field :: "string \<Rightarrow> cell" where
  "read_field s = (if s \<in> set NA_VALUES then NaN else Str s)"

text \<open>
  With \<^verbatim>\<open>dtype\<close> not given, the reader settles the type of each column from its fields that
  are not missing. When all of them read as whole numbers of 64 bits (blanks, a sign, digits
  and blanks), the column holds these numbers, as floating-point numbers when a value is
  missing (printed with \<^verbatim>\<open>.0\<close>, the digits the same up to 9007199254740992). When all of
  them are one of the six spellings of the truth values, the column holds truth values.
  Otherwise the column holds the text of the fields. (pandas tries floating-point numbers
  between the whole numbers and the truth values. That conversion is not part of the
  model: it keeps the text of such a column.)
\<close>

definition ascii_space :: "char \<Rightarrow> bool" where
  "ascii_space c = (c \<in> set [CHR '' '', CHR 0x09, CHR 0x0A, CHR 0x0B, CHR 0x0C, CHR 0x0D])"

definition ascii_digit :: "char \<Rightarrow> bool" where
  "ascii_digit c = (c \<in> set ''0123456789'')"

definition parse_int64 :: "string \<Rightarrow> int option" where
  "parse_int64 s =
     (let p = dropWhile ascii_space s;
          neg = (p \<noteq> [] \<and> hd p = CHR ''-'');
          q = (if p \<noteq> [] \<and> (hd p = CHR ''-'' \<or> hd p = CHR ''+'') then tl p else p);
          ds = takeWhile ascii_digit q;
          rest = dropWhile ascii_space (dropWhile ascii_digit q);
          n = foldl (\<lambda>a c. 10 * a + (of_char c - 48)) (0 :: nat) ds;
          i = (if neg then - int n else int n)
      in if ds \<noteq> [] \<and> rest = [] \<and> - 9223372036854775808 \<le> i \<and> i \<le> 9223372036854775807
         then Some i else None)"

definition show_int :: "int \<Rightarrow> string" where
  "show_int i = (if i < 0 then ''-'' @ show_nat (nat (- i)) else show_nat (nat i))"

definition TRUE_VALUES :: "string list" where
  "TRUE_VALUES = [''True'', ''TRUE'', ''true'']"

definition FALSE_VALUES :: "string list" where
  "FALSE_VALUES = [''False'', ''FALSE'', ''false'']"

definition read_column :: "string list \<Rightarrow> cell list" where
  "read_column fs =
     (let vals = filter (\<lambda>s. s \<notin> set NA_VALUES) fs
      in if vals \<noteq> [] \<and> list_all (\<lambda>s. parse_int64 s \<noteq> None) vals
         then map (\<lambda>s. case parse_int64 s of
                          None \<Rightarrow> NaN
                        | Some i \<Rightarrow>
                            Scalar (show_int i @ (if length vals < length fs then ''.0'' else [])))
                fs
         else if vals \<noteq> [] \<and> list_all (\<lambda>s. s \<in> set (TRUE_VALUES @ FALSE_VALUES)) vals
         then map (\<lambda>s. if s \<in> set TRUE_VALUES then Scalar ''True''
                        else if s \<in> set FALSE_VALUES then Scalar ''False'' else NaN)
                fs
         else map read_field fs)"

definition pandas_read_csv :: "byte list \<Rightarrow> exn + dataframe" where
  "pandas_read_csv csv =
     (case tokenize Start_record [] [] (decode_ascii csv) of
        Inl e \<Rightarrow> Inl e
      | Inr [] \<Rightarrow> Inl (Exn EmptyDataError ''No columns to parse from file'')
      | Inr (header # recs) \<Rightarrow>
          (let width = (case recs of [] \<Rightarrow> length header
                        | r # rs \<Rightarrow> max (length header) (length r));
               table = map (\<lambda>r. drop (width - length header)
                                  (r @ replicate (width - length r) [])) recs
           in if list_ex (\<lambda>r. width < length r) recs
              then Inl (Exn ParserError ''Error tokenizing data'')
              else Inr \<lparr>columns = header,
                        rows = transpose (map read_column (transpose table))\<rparr>))"

text \<open>
  The environment with this writer and reader; a text file of given lines; and the world
  that holds nothing but a ledger file.
\<close>

definition pandas_env ::
  "((string \<Rightarrow> byte list option) \<Rightarrow> string \<Rightarrow> exn + (string \<Rightarrow> string option)) \<Rightarrow> env" where
  "pandas_env m =
     \<lparr>base_dir = ''/app'', hf_token = ''hf_token'', hf_repo_id = ''user/voices'',
      model_transcribe = m, read_csv = pandas_read_csv, to_csv = pandas_to_csv\<rparr>"

definition text_file :: "string list \<Rightarrow> byte list" where
  "text_file ls = encode_ascii (concat (map (\<lambda>l. l @ [CHR 0x0A]) ls))"

definition ledger_world :: "byte list \<Rightarrow> world" where
  "ledger_world csv = empty_world\<lparr>files := (files empty_world)(''/app/data/metadata.csv'' \<mapsto> csv)\<rparr>"

section \<open>What a push makes and leaves\<close>

text \<open>The calls one run of \<^verbatim>\<open>push_to_huggingface\<close> makes, in order.\<close>

definition publish_calls :: "env \<Rightarrow> api_call list" where
  "publish_calls env =
     [CreateRepo (hf_repo_id env) Dataset True (hf_token env),
      UploadFolder (path_join (base_dir env) ''audio'') (hf_repo_id env) Dataset (hf_token env),
      UploadFile (METADATA_PATH env) ''metadata.csv'' (hf_repo_id env) Dataset (hf_token env)]"

text \<open>
  The contents of the dataset repository after a push from world \<open>w\<close> whose ledger file
  holds \<open>csv\<close>: what it held before (nothing, if it was not there), overlaid with the local
  files under the audio folder at their relative paths, then with the ledger at
  \<^verbatim>\<open>metadata.csv\<close>.
\<close>

definition published :: "env \<Rightarrow> world \<Rightarrow> byte list \<Rightarrow> string \<Rightarrow> byte list option" where
  "published env w csv =
     (\<lambda>p. if p = [] then
             (case hub w (Dataset, hf_repo_id env) of None \<Rightarrow> None | Some r \<Rightarrow> r p)
           else
             (case files w (path_join (base_dir env) ''audio'' @ ''/'' @ p) of
                None \<Rightarrow> (case hub w (Dataset, hf_repo_id env) of None \<Rightarrow> None | Some r \<Rightarrow> r p)
              | Some b \<Rightarrow> Some b))
     (''metadata.csv'' \<mapsto> csv)"

section \<open>Ledgers\<close>

text \<open>A ledger file of one row, and a world that holds it.\<close>

definition ledger1 :: "byte list" where
  "ledger1 = plain_to_csv False (new_row ''uploaded'' ''a.mp3'' '' hello'')"

definition world_with_ledger :: world where
  "world_with_ledger = empty_world\<lparr>files := (files empty_world)(''/app/data/metadata.csv'' \<mapsto> ledger1)\<rparr>"

text \<open>
  The ledger is of the program's own writing: there is none, or \<^verbatim>\<open>read_csv\<close> gives a frame
  with the columns \<^verbatim>\<open>audio\<close> and \<^verbatim>\<open>text\<close> for it. And a run of appends, one
  \<^verbatim>\<open>save_metadata\<close> after the other.
\<close>

definition two_columns :: "env \<Rightarrow> world \<Rightarrow> bool" where
  "two_columns env w =
     (case files w (METADATA_PATH env) of
        None \<Rightarrow> True
      | Some csv \<Rightarrow>
          (case read_csv env csv of
             Inl e \<Rightarrow> False
           | Inr df \<Rightarrow> columns df = [''audio'', ''text'']))"

fun appends :: "env \<Rightarrow> (string \<times> string \<times> string) list \<Rightarrow> world \<Rightarrow> (exn + unit) \<times> world" where
  "appends env [] w = (Inr (), w)"
| "appends env ((ty, fn, t) # rest) w =
     and_then (save_metadata env ty fn t w) (\<lambda>_ w'. appends env rest w')"

section \<open>Rendering of identifiers\<close>

lemma length_hex32: "length (hex32 u) = 32"
  by (simp add: hex32_def)

lemma length_str_uuid: "length (str_uuid u) = 36"
  by (simp add: str_uuid_def Let_def length_hex32)

lemma nibble_less: "nibble u i < 16"
proof -
  have "drop_bit (4 * (31 - i)) u AND 15 \<le> 15"
    by (rule word_and_le1)
  then have "unat (drop_bit (4 * (31 - i)) u AND 15) \<le> unat (15 :: uuid)"
    by (simp only: word_le_nat_alt)
  then show ?thesis by (simp add: nibble_def)
qed

lemma hex_digit_inj: "a < 16 \<Longrightarrow> b < 16 \<Longrightarrow> hex_digit a = hex_digit b \<Longrightarrow> a = b"
proof -
  assume a: "a < 16" and b: "b < 16" and e: "hex_digit a = hex_digit b"
  have d: "distinct ''0123456789abcdef''" by simp
  have l: "length ''0123456789abcdef'' = 16" by simp
  from e have "''0123456789abcdef'' ! a = ''0123456789abcdef'' ! b"
    by (simp only: hex_digit_def)
  with d a b l show "a = b"
    by (simp only: nth_eq_iff_index_eq)
qed

lemma hex_digit_not_slash: "d < 16 \<Longrightarrow> hex_digit d \<noteq> CHR ''/''"
proof -
  assume "d < 16"
  then have "hex_digit d \<in> set ''0123456789abcdef''"
    unfolding hex_digit_def by (intro nth_mem) simp
  then show ?thesis by auto
qed

lemma regroup:
  "take 8 h @ take 4 (drop 8 h) @ take 4 (drop 12 h) @ take 4 (drop 16 h) @ drop 20 h = h"
proof -
  have a: "take 4 (drop 16 h) @ drop 20 h = drop 16 h"
    using append_take_drop_id [of 4 "drop 16 h"] by simp
  have b: "take 4 (drop 12 h) @ drop 16 h = drop 12 h"
    using append_take_drop_id [of 4 "drop 12 h"] by simp
  have c: "take 4 (drop 8 h) @ drop 12 h = drop 8 h"
    using append_take_drop_id [of 4 "drop 8 h"] by simp
  show ?thesis
    by (simp only: a b c append_take_drop_id)
qed

lemma hex32_inj_str: "str_uuid a = str_uuid b \<Longrightarrow> hex32 a = hex32 b"
proof -
  assume e: "str_uuid a = str_uuid b"
  let ?h = "hex32 a" and ?k = "hex32 b"
  from e have
    "take 8 ?h = take 8 ?k \<and> take 4 (drop 8 ?h) = take 4 (drop 8 ?k) \<and>
     take 4 (drop 12 ?h) = take 4 (drop 12 ?k) \<and> take 4 (drop 16 ?h) = take 4 (drop 16 ?k) \<and>
     drop 20 ?h = drop 20 ?k"
    by (simp add: str_uuid_def Let_def length_hex32)
  then have "take 8 ?h @ take 4 (drop 8 ?h) @ take 4 (drop 12 ?h) @ take 4 (drop 16 ?h) @ drop 20 ?h
     = take 8 ?k @ take 4 (drop 8 ?k) @ take 4 (drop 12 ?k) @ take 4 (drop 16 ?k) @ drop 20 ?k"
    by simp
  then show ?thesis by (simp only: regroup)
qed

lemma nibble_eq: "hex32 a = hex32 b \<Longrightarrow> i < 32 \<Longrightarrow> nibble a i = nibble b i"
proof -
  assume e: "hex32 a = hex32 b" and i: "i < 32"
  have "hex32 a ! i = hex_digit (nibble a i)" "hex32 b ! i = hex_digit (nibble b i)"
    using i by (simp_all add: hex32_def)
  with e have "hex_digit (nibble a i) = hex_digit (nibble b i)" by simp
  then show ?thesis by (rule hex_digit_inj [OF nibble_less nibble_less])
qed

lemma str_uuid_inj: "str_uuid a = str_uuid b \<Longrightarrow> a = b"
proof (rule bit_word_eqI)
  fix n
  assume e: "str_uuid a = str_uuid b" and n: "n < LENGTH(128)"
  define i where "i = 31 - n div 4"
  have i: "i < 32" and m: "4 * (31 - i) + n mod 4 = n"
    using n by (simp_all add: i_def)
  have "nibble a i = nibble b i"
    by (rule nibble_eq [OF hex32_inj_str [OF e] i])
  then have w: "drop_bit (4 * (31 - i)) a AND 15 = drop_bit (4 * (31 - i)) b AND 15"
    unfolding nibble_def by (simp only: word_unat_eq_iff)
  have k: "bit (15 :: uuid) (n mod 4)"
    using mask_eq_exp_minus_1 [where 'a = uuid and n = 4]
      bit_mask_iff [where 'a = uuid and m = 4 and n = "n mod 4"]
    by simp
  have "bit (drop_bit (4 * (31 - i)) a AND 15) (n mod 4) =
        bit (drop_bit (4 * (31 - i)) b AND 15) (n mod 4)"
    by (simp only: w)
  then have "bit a (4 * (31 - i) + n mod 4) = bit b (4 * (31 - i) + n mod 4)"
    using k by (simp add: bit_and_iff bit_drop_bit_eq)
  then show "bit a n = bit b n" by (simp only: m)
qed

lemma str_uuid_Cons: "\<exists>c cs. str_uuid u = c # cs \<and> c \<noteq> CHR ''/''"
proof -
  have h: "hex32 u = hex_digit (nibble u 0) # map (\<lambda>i. hex_digit (nibble u i)) [1..<32]"
    by (simp add: hex32_def upt_rec [of 0])
  have "str_uuid u = hex_digit (nibble u 0) # tl (str_uuid u)"
    by (simp add: str_uuid_def Let_def h)
  then show ?thesis
    using hex_digit_not_slash [OF nibble_less] by blast
qed

section \<open>Paths\<close>

lemma path_join_relative: "b = c # cs \<Longrightarrow> c \<noteq> CHR ''/'' \<Longrightarrow> path_join a b = with_sep a @ b"
  by (simp add: path_join_def with_sep_def)

lemma path_join_uuid: "path_join d (str_uuid u @ rest) = with_sep d @ str_uuid u @ rest"
proof -
  obtain c cs where s: "str_uuid u = c # cs" and c: "c \<noteq> CHR ''/''"
    using str_uuid_Cons by blast
  have "path_join d ((c # cs) @ rest) = with_sep d @ (c # cs) @ rest"
    by (rule path_join_relative [OF _ c]) simp
  then show ?thesis by (simp only: s)
qed

lemma path_join_uuid_inj:
  "path_join d (str_uuid a @ r) = path_join d (str_uuid b @ s) \<Longrightarrow> a = b"
proof -
  assume "path_join d (str_uuid a @ r) = path_join d (str_uuid b @ s)"
  then have "str_uuid a @ r = str_uuid b @ s"
    by (simp add: path_join_uuid)
  then have "str_uuid a = str_uuid b"
    by (simp add: length_str_uuid)
  then show ?thesis by (rule str_uuid_inj)
qed

section \<open>Splitting names\<close>

lemma split_on_not_Nil: "split_on sep s \<noteq> []"
  by (induction s) (simp_all add: Let_def)

lemma split_on_no_sep: "sep \<notin> set e \<Longrightarrow> split_on sep e = [e]"
  by (induction e) (auto simp add: Let_def)

lemma split_on_append:
  "split_on sep (b @ sep # e) = split_on sep b @ split_on sep e"
proof (induction b)
  case Nil
  show ?case by simp
next
  case (Cons c b)
  have n: "split_on sep b \<noteq> []" by (rule split_on_not_Nil)
  show ?case
    using Cons n by (cases "split_on sep b") (simp_all add: Let_def)
qed

lemma last_split_on: "sep \<notin> set e \<Longrightarrow> last (split_on sep (b @ sep # e)) = e"
  by (simp add: split_on_append split_on_no_sep)

section \<open>Persisting an upload\<close>

lemma save_uploaded_file_eq:
  "CHR ''.'' \<notin> set ext \<Longrightarrow>
   save_uploaded_file env u \<lparr>name = stem @ ''.'' @ ext, content = bs\<rparr> w =
     (Inr (path_join (UPLOADED_DIR env) (str_uuid u @ ''.'' @ lower ext),
           str_uuid u @ ''.'' @ lower ext, ''uploaded''),
      w\<lparr>files := (files w)(path_join (UPLOADED_DIR env) (str_uuid u @ ''.'' @ lower ext) \<mapsto> bs)\<rparr>)"
  by (simp add: save_uploaded_file_def Let_def last_split_on)

lemma lower_char_not_upper: "lower_char c \<notin> set ''ABCDEFGHIJKLMNOPQRSTUVWXYZ''"
  by (simp add: lower_char_def)

lemma lower_no_upper: "set (lower s) \<inter> set ''ABCDEFGHIJKLMNOPQRSTUVWXYZ'' = {}"
proof -
  have "c \<notin> set ''ABCDEFGHIJKLMNOPQRSTUVWXYZ''" if "c \<in> set (lower s)" for c
  proof -
    from that obtain d where "c = lower_char d"
      unfolding lower_def set_map by blast
    then show ?thesis by (simp only: lower_char_not_upper not_False_eq_True)
  qed
  then show ?thesis by blast
qed

text \<open>Every name the uploader passes has the shape the lemma above asks for.\<close>

lemma accepted_name:
  assumes "uploader_accepts nm"
  shows "\<exists>stem ext. nm = stem @ ''.'' @ ext \<and> CHR ''.'' \<notin> set ext \<and>
           lower ext \<in> set accepted_types"
proof -
  from assms have d: "CHR ''.'' \<in> set nm" by (simp add: uploader_accepts_def)
  from split_list_last [OF d]
  obtain stem ext where n: "nm = stem @ CHR ''.'' # ext" and e: "CHR ''.'' \<notin> set ext"
    by (elim exE conjE) (rule that; assumption)
  have "last (split_on (CHR ''.'') nm) = ext"
    unfolding n by (rule last_split_on [OF e])
  with assms have "lower ext \<in> set accepted_types"
    by (simp add: uploader_accepts_def)
  with n e have "nm = stem @ ''.'' @ ext \<and> CHR ''.'' \<notin> set ext \<and>
      lower ext \<in> set accepted_types"
    by simp
  then show ?thesis by (intro exI)
qed

lemma accepted_upload_filename:
  assumes "uploader_accepts (name f)"
  shows "\<exists>e \<in> set accepted_types.
           fst (save_uploaded_file env u f w) =
             Inr (path_join (UPLOADED_DIR env) (str_uuid u @ ''.'' @ e), str_uuid u @ ''.'' @ e,
                  ''uploaded'')"
proof -
  from accepted_name [OF assms] obtain stem ext where n: "name f = stem @ ''.'' @ ext"
    and e: "CHR ''.'' \<notin> set ext" and t: "lower ext \<in> set accepted_types"
    by (elim exE conjE) (rule that; assumption)
  have "last (split_on (CHR ''.'') (name f)) = ext"
    unfolding n using last_split_on [OF e, of stem] by simp
  then have "fst (save_uploaded_file env u f w) =
      Inr (path_join (UPLOADED_DIR env) (str_uuid u @ ''.'' @ lower ext),
           str_uuid u @ ''.'' @ lower ext, ''uploaded'')"
    by (simp add: save_uploaded_file_def Let_def)
  with t show ?thesis by (rule_tac bexI)
qed

section \<open>Concrete identifiers and paths\<close>

lemma lower_MP3: "lower ''MP3'' = ''mp3''"
  by (simp add: lower_def lower_char_def)

lemma str_uuid_demo:
  "str_uuid 0x123e4567e89b12d3a456426614174000 = ''123e4567-e89b-12d3-a456-426614174000''"
  by (simp add: str_uuid_def hex32_def nibble_def hex_digit_def upt_rec)

lemma UPLOADED_DIR_demo: "UPLOADED_DIR (demo_env m) = ''/app/audio/uploaded''"
  by (simp add: UPLOADED_DIR_def demo_env_def path_join_def)

section \<open>Samples and bytes\<close>

lemma word_cat_split: "word_cat (ucast (drop_bit 8 x) :: byte) (ucast x :: byte) = (x :: 16 word)"
proof (rule bit_word_eqI)
  fix n assume "n < LENGTH(16)"
  then show "bit (word_cat (ucast (drop_bit 8 x) :: byte) (ucast x :: byte) :: 16 word) n = bit x n"
    by (cases "n < 8") (auto simp add: bit_word_cat_iff bit_ucast_iff bit_drop_bit_eq)
qed

lemma ucast_word_cat_lo: "(ucast (word_cat (hi :: byte) (lo :: byte) :: 16 word) :: byte) = lo"
  by (rule bit_word_eqI) (auto simp add: bit_word_cat_iff bit_ucast_iff)

lemma ucast_word_cat_hi: "(ucast (drop_bit 8 (word_cat (hi :: byte) (lo :: byte) :: 16 word)) :: byte) = hi"
  by (rule bit_word_eqI) (auto simp add: bit_word_cat_iff bit_ucast_iff bit_drop_bit_eq)

lemma int16_le_tobytes: "int16_le (tobytes xs) = xs"
  by (induction xs) (simp_all add: tobytes_def word_cat_split)

lemma length_tobytes: "length (tobytes xs) = 2 * length xs"
  by (induction xs) (simp_all add: tobytes_def)

lemma length_int16_le: "length (int16_le bs) = length bs div 2"
  by (induction bs rule: int16_le.induct) simp_all

lemma tobytes_int16_le: "length bs mod 2 = 0 \<Longrightarrow> tobytes (int16_le bs) = bs"
proof (induction bs rule: int16_le.induct)
  case (1 lo hi bs)
  then have "tobytes (int16_le bs) = bs" by simp
  then show ?case
    by (simp add: tobytes_def ucast_word_cat_lo ucast_word_cat_hi)
qed (simp_all add: tobytes_def)

lemma frombuffer_tobytes: "frombuffer (tobytes xs) = Inr xs"
  by (simp add: frombuffer_def length_tobytes int16_le_tobytes)

section \<open>Little-endian fields\<close>

lemma unat_byte_of_nat: "unat (of_nat n :: byte) = n mod 256"
  by (simp add: unat_of_nat)

lemma le_nat_le16: "n < 65536 \<Longrightarrow> le_nat (le16 n) = n"
  unfolding le_nat_def le16_def by (simp add: unat_byte_of_nat)

lemma base256_sum:
  "D = E \<Longrightarrow> F = E * 256 + C \<Longrightarrow> G = F * 256 + B \<Longrightarrow> n = G * 256 + A \<Longrightarrow>
   A + 256 * (B + 256 * (C + 256 * D)) = (n::nat)"
  by simp

lemma le_nat_le32: "n < 4294967296 \<Longrightarrow> le_nat (le32 n) = n"
proof -
  assume n: "n < 4294967296"
  have a: "n div 16777216 mod 256 = n div 16777216" using n by simp
  have b': "n div 16777216 = n div 65536 div 256"
    using div_mult2_eq [of n 65536 256] by simp
  have b: "n div 65536 = (n div 16777216) * 256 + n div 65536 mod 256"
    using div_mult_mod_eq [of "n div 65536" 256] by (simp only: b')
  have c': "n div 65536 = n div 256 div 256"
    using div_mult2_eq [of n 256 256] by simp
  have c: "n div 256 = (n div 65536) * 256 + n div 256 mod 256"
    using div_mult_mod_eq [of "n div 256" 256] by (simp only: c')
  have d: "n = (n div 256) * 256 + n mod 256"
    by simp
  have "le_nat (le32 n) =
        n mod 256 + 256 * (n div 256 mod 256 + 256 * (n div 65536 mod 256 +
          256 * (n div 16777216 mod 256)))"
    unfolding le_nat_def le32_def by (simp add: unat_byte_of_nat)
  also have "\<dots> = n" by (rule base256_sum [OF a b c d])
  finally show ?thesis .
qed

lemma le_nat_Cons: "le_nat (b # bs) = unat b + 256 * le_nat bs"
  by (simp add: le_nat_def)

lemma le_nat_le_bytes: "le_nat (le_bytes k n) = n mod 256 ^ k"
proof (induction k arbitrary: n)
  case 0
  show ?case by (simp add: le_nat_def)
next
  case (Suc k)
  have "le_nat (le_bytes (Suc k) n) = n mod 256 + 256 * (n div 256 mod 256 ^ k)"
    by (simp add: le_nat_Cons unat_byte_of_nat Suc.IH)
  also have "\<dots> = n mod 256 ^ Suc k"
    by (simp add: mod_mult2_eq)
  finally show ?case .
qed

lemma length_le_bytes: "length (le_bytes k n) = k"
  by (induction k arbitrary: n) simp_all

lemma length_le64: "length (le64 n) = 8"
  by (simp add: le64_def length_le_bytes)

lemma le_nat_le64: "n < 18446744073709551616 \<Longrightarrow> le_nat (le64 n) = n"
  by (simp add: le64_def le_nat_le_bytes)

lemma length_encode_ascii: "length (encode_ascii s) = length s"
  by (simp add: encode_ascii_def)

lemma length_le32: "length (le32 n) = 4"
  by (simp add: le32_def)

lemma length_le16: "length (le16 n) = 2"
  by (simp add: le16_def)

lemma length_fmt_chunk_data: "length (fmt_chunk_data rate) = 16"
  by (simp add: fmt_chunk_data_def length_le16 length_le32)

lemmas wav_lengths = length_encode_ascii length_le32 length_le16 length_fmt_chunk_data

lemma fmt_ne_data: "encode_ascii ''data'' \<noteq> encode_ascii ''fmt ''"
  by (simp add: encode_ascii_def)

section \<open>Writing and reading a WAV file\<close>

lemma length_header_data: "length (header_data rate) = 36"
  by (simp add: header_data_def wav_lengths)

lemma length_rf64_header_data: "length (rf64_header_data rate b k) = 72"
  by (simp add: rf64_header_data_def wav_lengths length_le64)

lemma parse_fmt_chunk:
  "rate < 4294967296 \<Longrightarrow>
   parse_fmt (fmt_chunk_data rate) =
     \<lparr>format_tag = 1, channels = 1, sample_rate = rate, bits_per_sample = 16\<rparr>"
proof -
  assume r: "rate < 4294967296"
  have a: "take 2 (fmt_chunk_data rate) = le16 1"
    and b: "take 2 (drop 2 (fmt_chunk_data rate)) = le16 1"
    and c: "take 4 (drop 4 (fmt_chunk_data rate)) = le32 rate"
    and d: "take 2 (drop 14 (fmt_chunk_data rate)) = le16 16"
    by (simp_all add: fmt_chunk_data_def wav_lengths)
  show ?thesis
    by (simp add: parse_fmt_def a b c d le_nat_le16 le_nat_le32 r)
qed

lemma ds64_ne_fmt: "encode_ascii ''fmt '' \<noteq> encode_ascii ''data''"
  by (simp add: encode_ascii_def)

lemma read_chunks_fmt:
  "length p = 16 \<Longrightarrow>
   read_chunks (encode_ascii ''fmt '' @ le32 16 @ p @ rest) ds64 fmt =
     read_chunks rest ds64 (Some (parse_fmt p))"
  by (subst read_chunks.simps)
    (simp add: le_nat_le32 Let_def wav_lengths ds64_ne_fmt split: option.split
       del: read_chunks.simps)

lemma read_chunks_data:
  "length p < 4294967296 \<Longrightarrow> format_tag f = 1 \<Longrightarrow> channels f = 1 \<Longrightarrow>
   bits_per_sample f = 16 \<Longrightarrow>
   read_chunks (encode_ascii ''data'' @ le32 (length p) @ p) None (Some f) =
     (case frombuffer p of Inl e \<Rightarrow> Inl e | Inr samples \<Rightarrow> Inr (sample_rate f, samples))"
  by (subst read_chunks.simps)
    (simp add: le_nat_le32 Let_def fmt_ne_data wav_lengths del: read_chunks.simps)

lemma read_chunks_data_ds64:
  "length sz = 4 \<Longrightarrow> format_tag f = 1 \<Longrightarrow> channels f = 1 \<Longrightarrow>
   bits_per_sample f = 16 \<Longrightarrow>
   read_chunks (encode_ascii ''data'' @ sz @ p) (Some (length p)) (Some f) =
     (case frombuffer p of Inl e \<Rightarrow> Inl e | Inr samples \<Rightarrow> Inr (sample_rate f, samples))"
  by (subst read_chunks.simps)
    (simp add: Let_def fmt_ne_data wav_lengths del: read_chunks.simps)

lemma wavfile_read_riff:
  "length chunks + 4 < 4294967296 \<Longrightarrow>
   wavfile_read (encode_ascii ''RIFF'' @ le32 (length chunks + 4) @ encode_ascii ''WAVE'' @ chunks) =
     read_chunks chunks None None"
  by (simp add: wavfile_read_def le_nat_le32 wav_lengths del: read_chunks.simps)

lemma riff_ne_rf64: "encode_ascii ''RF64'' \<noteq> encode_ascii ''RIFF''"
  by (simp add: encode_ascii_def)

lemma wavfile_read_rf64:
  assumes "length chunks + 40 < 18446744073709551616" and "d < 18446744073709551616"
  shows "wavfile_read (encode_ascii ''RF64'' @ [0xFF, 0xFF, 0xFF, 0xFF] @ encode_ascii ''WAVE'' @
       encode_ascii ''ds64'' @ le32 28 @ le64 (length chunks + 40) @ le64 d @ le64 k @ le32 0 @
       chunks) =
     read_chunks chunks (Some d) None"
  using assms
  by (simp add: wavfile_read_def le_nat_le32 le_nat_le64 wav_lengths length_le64 riff_ne_rf64
      Let_def del: read_chunks.simps)

text \<open>The bytes of the WAV file for a given rate and samples.\<close>

lemma wavfile_write_ok:
  "36 + 2 * length xs \<le> 4294967295 \<Longrightarrow>
   wavfile_write p rate xs w =
     (Inr (), w\<lparr>files := (files w)(p \<mapsto>
        encode_ascii ''RIFF'' @ le32 (36 + 2 * length xs) @ encode_ascii ''WAVE'' @
        encode_ascii ''fmt '' @ le32 16 @ fmt_chunk_data rate @
        encode_ascii ''data'' @ le32 (2 * length xs) @ tobytes xs)\<rparr>)"
  by (simp add: wavfile_write_def Let_def header_data_def length_tobytes wav_lengths)

lemma wavfile_write_rf64:
  "4294967295 < 36 + 2 * length xs \<Longrightarrow>
   wavfile_write p rate xs w =
     (Inr (), w\<lparr>files := (files w)(p \<mapsto>
        encode_ascii ''RF64'' @ [0xFF, 0xFF, 0xFF, 0xFF] @ encode_ascii ''WAVE'' @
        encode_ascii ''ds64'' @ le32 28 @ le64 (72 + 2 * length xs) @ le64 (2 * length xs) @
        le64 (length xs) @ le32 0 @
        encode_ascii ''fmt '' @ le32 16 @ fmt_chunk_data rate @
        encode_ascii ''data'' @ le32 (min (2 * length xs) 4294967295) @ tobytes xs)\<rparr>)"
  by (simp add: wavfile_write_def Let_def length_header_data rf64_header_data_def
      length_tobytes wav_lengths length_le64)

lemma wavfile_roundtrip:
  assumes "36 + 2 * length xs \<le> 4294967295" and "rate < 4294967296"
  shows "wavfile_read (encode_ascii ''RIFF'' @ le32 (36 + 2 * length xs) @ encode_ascii ''WAVE'' @
        encode_ascii ''fmt '' @ le32 16 @ fmt_chunk_data rate @
        encode_ascii ''data'' @ le32 (2 * length xs) @ tobytes xs) = Inr (rate, xs)"
proof -
  let ?d = "encode_ascii ''data'' @ le32 (2 * length xs) @ tobytes xs"
  let ?chunks = "encode_ascii ''fmt '' @ le32 16 @ fmt_chunk_data rate @ ?d"
  have l: "length ?chunks + 4 = 36 + 2 * length xs"
    by (simp add: length_tobytes wav_lengths)
  have "wavfile_read (encode_ascii ''RIFF'' @ le32 (length ?chunks + 4) @ encode_ascii ''WAVE'' @ ?chunks)
        = read_chunks ?chunks None None"
    using assms(1) by (intro wavfile_read_riff) (simp add: length_tobytes wav_lengths)
  also have "\<dots> = read_chunks ?d None (Some (parse_fmt (fmt_chunk_data rate)))"
    by (rule read_chunks_fmt) (rule length_fmt_chunk_data)
  also have "\<dots> = read_chunks (encode_ascii ''data'' @ le32 (length (tobytes xs)) @ tobytes xs) None
       (Some \<lparr>format_tag = 1, channels = 1, sample_rate = rate, bits_per_sample = 16\<rparr>)"
    by (simp add: parse_fmt_chunk assms(2) length_tobytes del: read_chunks.simps)
  also have "\<dots> = Inr (rate, xs)"
    using assms(1) by (subst read_chunks_data) (simp_all add: length_tobytes frombuffer_tobytes)
  finally show ?thesis by (simp only: l)
qed

lemma wavfile_roundtrip_rf64:
  assumes "2 * length xs \<le> 9223372036854775807" and "rate < 4294967296"
  shows "wavfile_read (encode_ascii ''RF64'' @ [0xFF, 0xFF, 0xFF, 0xFF] @ encode_ascii ''WAVE'' @
        encode_ascii ''ds64'' @ le32 28 @ le64 (72 + 2 * length xs) @ le64 (2 * length xs) @
        le64 (length xs) @ le32 0 @
        encode_ascii ''fmt '' @ le32 16 @ fmt_chunk_data rate @
        encode_ascii ''data'' @ le32 (min (2 * length xs) 4294967295) @ tobytes xs) = Inr (rate, xs)"
proof -
  let ?sz = "le32 (min (2 * length xs) 4294967295)"
  let ?d = "encode_ascii ''data'' @ ?sz @ tobytes xs"
  let ?chunks = "encode_ascii ''fmt '' @ le32 16 @ fmt_chunk_data rate @ ?d"
  have l: "length ?chunks + 40 = 72 + 2 * length xs"
    by (simp add: length_tobytes wav_lengths)
  have "wavfile_read (encode_ascii ''RF64'' @ [0xFF, 0xFF, 0xFF, 0xFF] @ encode_ascii ''WAVE'' @
        encode_ascii ''ds64'' @ le32 28 @ le64 (length ?chunks + 40) @ le64 (2 * length xs) @
        le64 (length xs) @ le32 0 @ ?chunks)
        = read_chunks ?chunks (Some (2 * length xs)) None"
    using assms(1) by (intro wavfile_read_rf64) (simp_all add: length_tobytes wav_lengths)
  also have "\<dots> = read_chunks ?d (Some (2 * length xs)) (Some (parse_fmt (fmt_chunk_data rate)))"
    by (rule read_chunks_fmt) (rule length_fmt_chunk_data)
  also have "\<dots> = read_chunks (encode_ascii ''data'' @ ?sz @ tobytes xs) (Some (length (tobytes xs)))
       (Some \<lparr>format_tag = 1, channels = 1, sample_rate = rate, bits_per_sample = 16\<rparr>)"
    by (simp add: parse_fmt_chunk assms(2) length_tobytes del: read_chunks.simps)
  also have "\<dots> = Inr (rate, xs)"
    by (subst read_chunks_data_ds64) (simp_all add: length_le32 frombuffer_tobytes)
  finally show ?thesis by (simp only: l)
qed

section \<open>Persisting a recording\<close>

lemma save_recorded_audio_odd:
  "length ab mod 2 \<noteq> 0 \<Longrightarrow>
   save_recorded_audio env u ab w =
     (Inl (Exn ValueError ''buffer size must be a multiple of element size''), w)"
  by (simp add: save_recorded_audio_def frombuffer_def)

lemma save_recorded_audio_ok:
  "36 + 2 * length xs \<le> 4294967295 \<Longrightarrow>
   save_recorded_audio env u (tobytes xs) w =
     (Inr (path_join (RECORDED_DIR env) (str_uuid u @ ''.wav''), str_uuid u @ ''.wav'', ''recorded''),
      w\<lparr>files := (files w)(path_join (RECORDED_DIR env) (str_uuid u @ ''.wav'') \<mapsto>
        encode_ascii ''RIFF'' @ le32 (36 + 2 * length xs) @ encode_ascii ''WAVE'' @
        encode_ascii ''fmt '' @ le32 16 @ fmt_chunk_data 44100 @
        encode_ascii ''data'' @ le32 (2 * length xs) @ tobytes xs)\<rparr>)"
  by (simp add: save_recorded_audio_def Let_def frombuffer_tobytes wavfile_write_ok and_then_def)

lemma save_recorded_audio_rf64:
  "4294967295 < 36 + 2 * length xs \<Longrightarrow>
   save_recorded_audio env u (tobytes xs) w =
     (Inr (path_join (RECORDED_DIR env) (str_uuid u @ ''.wav''), str_uuid u @ ''.wav'', ''recorded''),
      w\<lparr>files := (files w)(path_join (RECORDED_DIR env) (str_uuid u @ ''.wav'') \<mapsto>
        encode_ascii ''RF64'' @ [0xFF, 0xFF, 0xFF, 0xFF] @ encode_ascii ''WAVE'' @
        encode_ascii ''ds64'' @ le32 28 @ le64 (72 + 2 * length xs) @ le64 (2 * length xs) @
        le64 (length xs) @ le32 0 @
        encode_ascii ''fmt '' @ le32 16 @ fmt_chunk_data 44100 @
        encode_ascii ''data'' @ le32 (min (2 * length xs) 4294967295) @ tobytes xs)\<rparr>)"
  by (simp add: save_recorded_audio_def Let_def frombuffer_tobytes wavfile_write_rf64 and_then_def)

lemma str_uuid_1: "str_uuid 1 = ''00000000-0000-0000-0000-000000000001''"
  by (simp add: str_uuid_def hex32_def nibble_def hex_digit_def upt_rec)

lemma str_uuid_2: "str_uuid 2 = ''00000000-0000-0000-0000-000000000002''"
  by (simp add: str_uuid_def hex32_def nibble_def hex_digit_def upt_rec)

lemma RECORDED_DIR_demo: "RECORDED_DIR (demo_env m) = ''/app/audio/recorded''"
  by (simp add: RECORDED_DIR_def demo_env_def path_join_def)

lemma recorded_path_1:
  "path_join (RECORDED_DIR (demo_env m)) (str_uuid 1 @ ''.wav'') =
   ''/app/audio/recorded/00000000-0000-0000-0000-000000000001.wav''"
  by (simp add: RECORDED_DIR_demo str_uuid_1 path_join_def)

lemma recorded_path_2:
  "path_join (RECORDED_DIR (demo_env m)) (str_uuid 2 @ ''.wav'') =
   ''/app/audio/recorded/00000000-0000-0000-0000-000000000002.wav''"
  by (simp add: RECORDED_DIR_demo str_uuid_2 path_join_def)

section \<open>The ledger's path\<close>

lemma with_sep_append: "s \<noteq> [] \<Longrightarrow> last s \<noteq> CHR ''/'' \<Longrightarrow> with_sep (d @ s) = d @ s @ ''/''"
  by (simp add: with_sep_def)

lemma METADATA_PATH_eq: "METADATA_PATH env = with_sep (base_dir env) @ ''data/metadata.csv''"
proof -
  have "DATA_DIR env = with_sep (base_dir env) @ ''data''"
    unfolding DATA_DIR_def by (rule path_join_relative [of _ "CHR ''d''" "''ata''"]) simp_all
  moreover have "path_join (with_sep (base_dir env) @ ''data'') ''metadata.csv'' =
      with_sep (with_sep (base_dir env) @ ''data'') @ ''metadata.csv''"
    by (rule path_join_relative [of _ "CHR ''m''" "''etadata.csv''"]) simp_all
  ultimately show ?thesis
    by (simp add: METADATA_PATH_def with_sep_append)
qed

lemma AUDIO_eq: "path_join (base_dir env) ''audio'' = with_sep (base_dir env) @ ''audio''"
  by (rule path_join_relative [of _ "CHR ''a''" "''udio''"]) simp_all

lemma RECORDED_DIR_eq: "RECORDED_DIR env = with_sep (base_dir env) @ ''audio/recorded''"
proof -
  have "path_join (with_sep (base_dir env) @ ''audio'') ''recorded'' =
      with_sep (with_sep (base_dir env) @ ''audio'') @ ''recorded''"
    by (rule path_join_relative [of _ "CHR ''r''" "''ecorded''"]) simp_all
  then show ?thesis
    by (simp add: RECORDED_DIR_def AUDIO_eq with_sep_append)
qed

lemma UPLOADED_DIR_eq: "UPLOADED_DIR env = with_sep (base_dir env) @ ''audio/uploaded''"
proof -
  have "path_join (with_sep (base_dir env) @ ''audio'') ''uploaded'' =
      with_sep (with_sep (base_dir env) @ ''audio'') @ ''uploaded''"
    by (rule path_join_relative [of _ "CHR ''u''" "''ploaded''"]) simp_all
  then show ?thesis
    by (simp add: UPLOADED_DIR_def AUDIO_eq with_sep_append)
qed

lemma recorded_path_ne_ledger:
  "path_join (RECORDED_DIR env) (str_uuid u @ r) \<noteq> METADATA_PATH env"
  by (simp add: path_join_uuid RECORDED_DIR_eq METADATA_PATH_eq with_sep_append)

lemma uploaded_path_ne_ledger:
  "path_join (UPLOADED_DIR env) (str_uuid u @ r) \<noteq> METADATA_PATH env"
  by (simp add: path_join_uuid UPLOADED_DIR_eq METADATA_PATH_eq with_sep_append)

section \<open>What persisting leaves alone\<close>

lemma save_uploaded_file_frame:
  "save_uploaded_file env u f w = (r, w') \<Longrightarrow>
   files w' (METADATA_PATH env) = files w (METADATA_PATH env) \<and>
   calls w' = calls w \<and> hub w' = hub w \<and> ui w' = ui w"
  by (auto simp add: save_uploaded_file_def Let_def uploaded_path_ne_ledger [symmetric])

lemma wavfile_write_frame:
  "wavfile_write p rate xs w = (r, w') \<Longrightarrow>
   (\<forall>q. q \<noteq> p \<longrightarrow> files w' q = files w q) \<and>
   calls w' = calls w \<and> hub w' = hub w \<and> ui w' = ui w"
  by (auto simp add: wavfile_write_def Let_def split: if_splits)

lemma save_recorded_audio_frame:
  "save_recorded_audio env u ab w = (r, w') \<Longrightarrow>
   files w' (METADATA_PATH env) = files w (METADATA_PATH env) \<and>
   calls w' = calls w \<and> hub w' = hub w \<and> ui w' = ui w"
proof -
  assume a: "save_recorded_audio env u ab w = (r, w')"
  let ?p = "path_join (RECORDED_DIR env) (str_uuid u @ ''.wav'')"
  show ?thesis
  proof (cases "frombuffer ab")
    case (Inl e)
    with a show ?thesis by (simp add: save_recorded_audio_def Let_def)
  next
    case (Inr xs)
    obtain r0 w0 where b: "wavfile_write ?p 44100 xs w = (r0, w0)"
      by (cases "wavfile_write ?p 44100 xs w")
    with a Inr have "w' = w0"
      by (cases r0) (simp_all add: save_recorded_audio_def Let_def and_then_def)
    with wavfile_write_frame [OF b] recorded_path_ne_ledger [of env u "''.wav''"]
    show ?thesis by metis
  qed
qed

section \<open>Appending a row to a frame\<close>

lemma cell_at_map: "c \<in> set cols \<Longrightarrow> cell_at cols (map f cols) c = f c"
  by (simp add: cell_at_def map_of_zip_map)

lemma cell_at_reindex:
  "c \<in> set cols' \<Longrightarrow> cell_at cols' (reindex cols' cols r) c = cell_at cols r c"
  by (simp add: reindex_def cell_at_map)

lemma length_rows_pd_concat:
  "length (rows (pd_concat df1 df2)) = length (rows df1) + length (rows df2)"
  by (simp add: pd_concat_def Let_def)

lemma columns_pd_concat:
  "columns (pd_concat df1 df2) =
   columns df1 @ filter (\<lambda>c. c \<notin> set (columns df1)) (columns df2)"
  by (simp add: pd_concat_def Let_def)

lemma set_columns_pd_concat:
  "set (columns (pd_concat df1 df2)) = set (columns df1) \<union> set (columns df2)"
  by (auto simp add: columns_pd_concat)

lemma length_concat_row: "length (concat_row df other cols r) = length cols"
  by (simp add: concat_row_def)

lemma not_int_column_new_row: "\<not> int_column (new_row ty fn t) c"
  by (simp add: int_column_def new_row_def cell_at_def)

lemma concat_row_new_row:
  "concat_row (new_row ty fn t) df cols r = reindex cols [''audio'', ''text''] r"
  by (simp add: concat_row_def not_int_column_new_row reindex_def) (simp add: new_row_def)

text \<open>Under the columns that the other frame has too, the cells of a row stay as they are.\<close>

lemma concat_row_same_columns:
  "set cols \<subseteq> set (columns other) \<Longrightarrow>
   concat_row df other cols r = reindex cols (columns df) r"
  by (auto simp add: concat_row_def reindex_def)

text \<open>A column of whole numbers that the new row does not have becomes floating-point.\<close>

lemma pd_concat_int_column:
  "pd_concat
     \<lparr>columns = [''audio'', ''text'', ''n''],
      rows = [[Str ''audio/uploaded/a.mp3'', Str '' hello'', Scalar ''1'']]\<rparr>
     (new_row ''recorded'' ''b.wav'' '' bye'') =
   \<lparr>columns = [''audio'', ''text'', ''n''],
    rows = [[Str ''audio/uploaded/a.mp3'', Str '' hello'', Scalar ''1.0''],
            [Str ''audio/recorded/b.wav'', Str '' bye'', NaN]]\<rparr>"
  by (simp add: pd_concat_def concat_row_def int_column_def int_text_def new_row_def cell_at_def
      Let_def)

lemma rows_pd_concat_new_row:
  "rows (pd_concat df (new_row ty fn t)) ! (length (rows df)) =
   reindex (columns (pd_concat df (new_row ty fn t))) [''audio'', ''text'']
     [Str (''audio/'' @ ty @ ''/'' @ fn), Str t]"
proof -
  have "rows (pd_concat df (new_row ty fn t)) ! (length (rows df)) =
        concat_row (new_row ty fn t) df (columns (pd_concat df (new_row ty fn t)))
          (rows (new_row ty fn t) ! 0)"
    by (simp add: pd_concat_def Let_def nth_append) (simp add: new_row_def)
  also have "\<dots> = reindex (columns (pd_concat df (new_row ty fn t))) [''audio'', ''text'']
          (rows (new_row ty fn t) ! 0)"
    by (rule concat_row_new_row)
  finally show ?thesis by (simp add: new_row_def)
qed

lemma df_cell_pd_concat_new_row:
  assumes "c \<in> {''audio'', ''text''}"
  shows "df_cell (pd_concat df (new_row ty fn t)) (length (rows df)) c =
         cell_at [''audio'', ''text''] [Str (''audio/'' @ ty @ ''/'' @ fn), Str t] c"
proof -
  let ?cols = "columns (pd_concat df (new_row ty fn t))"
  have c: "c \<in> set ?cols" using assms by (auto simp add: set_columns_pd_concat new_row_def)
  show ?thesis
    unfolding df_cell_def rows_pd_concat_new_row by (rule cell_at_reindex [OF c])
qed

lemma new_row_cells:
  "df_cell (new_row ty fn t) 0 ''audio'' = Str (''audio/'' @ ty @ ''/'' @ fn)"
  "df_cell (new_row ty fn t) 0 ''text'' = Str t"
  by (simp_all add: new_row_def df_cell_def cell_at_def)

lemma pd_concat_new_row_cells:
  "df_cell (pd_concat df (new_row ty fn t)) (length (rows df)) ''audio'' =
     Str (''audio/'' @ ty @ ''/'' @ fn)"
  "df_cell (pd_concat df (new_row ty fn t)) (length (rows df)) ''text'' = Str t"
  by (simp_all add: df_cell_pd_concat_new_row cell_at_def)

lemma pd_concat_two_columns:
  "columns df = [''audio'', ''text''] \<Longrightarrow>
   columns (pd_concat df (new_row ty fn t)) = [''audio'', ''text''] \<and>
   last (rows (pd_concat df (new_row ty fn t))) = [Str (''audio/'' @ ty @ ''/'' @ fn), Str t]"
  by (simp add: pd_concat_def Let_def concat_row_def new_row_def reindex_def cell_at_def)

section \<open>The ledger\<close>

lemma metadata_frame_ui: "metadata_frame env ty fn t (w\<lparr>ui := x\<rparr>) = metadata_frame env ty fn t w"
  by (simp add: metadata_frame_def)

lemma save_metadata_ok:
  "metadata_frame env ty fn t w = Inr df \<Longrightarrow>
   save_metadata env ty fn t w =
     (Inr (), w\<lparr>files := (files w)(METADATA_PATH env \<mapsto> to_csv env False df)\<rparr>)"
  by (simp add: save_metadata_def)

lemma save_metadata_raises:
  "metadata_frame env ty fn t w = Inl e \<Longrightarrow> save_metadata env ty fn t w = (Inl e, w)"
  by (simp add: save_metadata_def)

lemma metadata_frame_new:
  "files w (METADATA_PATH env) = None \<Longrightarrow> metadata_frame env ty fn t w = Inr (new_row ty fn t)"
  by (simp add: metadata_frame_def)

lemma metadata_frame_existing:
  "files w (METADATA_PATH env) = Some csv \<Longrightarrow> read_csv env csv = Inr df \<Longrightarrow>
   metadata_frame env ty fn t w = Inr (pd_concat df (new_row ty fn t))"
  by (simp add: metadata_frame_def)

lemma metadata_frame_rows:
  "metadata_frame env ty fn t w = Inr df \<Longrightarrow>
   rows df \<noteq> [] \<and> df_cell df (length (rows df) - 1) ''text'' = Str t \<and>
   df_cell df (length (rows df) - 1) ''audio'' = Str (''audio/'' @ ty @ ''/'' @ fn)"
proof -
  assume a: "metadata_frame env ty fn t w = Inr df"
  show ?thesis
  proof (cases "files w (METADATA_PATH env)")
    case None
    with a have "df = new_row ty fn t" by (simp add: metadata_frame_def)
    then show ?thesis
      using new_row_cells [of ty fn t] by (simp add: new_row_def)
  next
    case (Some csv)
    with a obtain d where "read_csv env csv = Inr d" and df: "df = pd_concat d (new_row ty fn t)"
      by (auto simp add: metadata_frame_def split: sum.splits)
    have l: "length (rows df) = length (rows d) + 1"
      by (simp add: df length_rows_pd_concat new_row_def)
    then have "rows df \<noteq> []" by auto
    then show ?thesis
      using pd_concat_new_row_cells [of d ty fn t] by (simp add: l) (simp add: df)
  qed
qed

section \<open>Publishing\<close>

lemma published_cong:
  "files w1 = files w2 \<Longrightarrow> hub w1 = hub w2 \<Longrightarrow> published env w1 csv = published env w2 csv"
  by (simp add: published_def cong: if_cong option.case_cong)

lemma push_to_huggingface_ok:
  assumes "files w (METADATA_PATH env) = Some csv"
  shows "push_to_huggingface env w =
     (Inr (), w\<lparr>hub := (hub w)((Dataset, hf_repo_id env) \<mapsto> published env w csv),
               calls := calls w @ publish_calls env\<rparr>)"
proof (cases "hub w (Dataset, hf_repo_id env)")
  case None
  then show ?thesis
    using assms
    by (simp add: push_to_huggingface_def create_repo_def upload_folder_def upload_file_def
        and_then_def Let_def publish_calls_def published_def cong: if_cong option.case_cong)
next
  case (Some r)
  then show ?thesis
    using assms
    by (simp add: push_to_huggingface_def create_repo_def upload_folder_def upload_file_def
        and_then_def Let_def publish_calls_def published_def cong: if_cong option.case_cong)
qed

lemma push_to_huggingface_no_ledger:
  assumes "files w (METADATA_PATH env) = None"
  shows "fst (push_to_huggingface env w) = Inl (Exn ValueError ''Provided path is not a file'')"
  using assms
  by (cases "hub w (Dataset, hf_repo_id env)")
    (simp_all add: push_to_huggingface_def create_repo_def upload_folder_def upload_file_def
      and_then_def Let_def)

section \<open>The steps after persisting\<close>

lemma transcribe_audio_raises:
  "model_transcribe env (files w) p = Inl e \<Longrightarrow>
   transcribe_audio env p w =
     (None, w\<lparr>ui := ui w @ [Error (''Transcription failed: '' @ str_exn e)]\<rparr>)"
  by (simp add: transcribe_audio_def)

lemma transcribe_audio_cases:
  "transcribe_audio env p w = (tr, w') \<Longrightarrow>
   files w' = files w \<and> calls w' = calls w \<and> hub w' = hub w \<and>
   (tr = None \<or> w' = w)"
  by (auto simp add: transcribe_audio_def split: sum.splits option.splits)

lemma transcribe_and_publish_skip:
  "fst (transcribe_audio env p w) = None \<or> fst (transcribe_audio env p w) = Some [] \<Longrightarrow>
   transcribe_and_publish env msg (p, fn, ty) w = (Inr (), snd (transcribe_audio env p w))"
  by (cases "transcribe_audio env p w") (auto simp add: transcribe_and_publish_def)

lemma transcribe_and_publish_ok:
  assumes "fst (transcribe_audio env p w) = Some t" and "t \<noteq> []"
    and "metadata_frame env ty fn t w = Inr df"
  shows "transcribe_and_publish env msg (p, fn, ty) w =
     (Inr (),
      w\<lparr>files := (files w)(METADATA_PATH env \<mapsto> to_csv env False df),
        hub := (hub w)((Dataset, hf_repo_id env) \<mapsto>
                 published env (w\<lparr>files := (files w)(METADATA_PATH env \<mapsto> to_csv env False df)\<rparr>)
                   (to_csv env False df)),
        calls := calls w @ publish_calls env,
        ui := ui w @ [Markdown ''### Transcription'', Written t, Success msg]\<rparr>)"
proof -
  obtain w1 where a: "transcribe_audio env p w = (Some t, w1)"
    using assms(1) by (cases "transcribe_audio env p w") simp
  from transcribe_audio_cases [OF a] have w1: "w1 = w" by simp
  let ?w2 = "w\<lparr>ui := ui w @ [Markdown ''### Transcription'', Written t]\<rparr>"
  let ?w3 = "?w2\<lparr>files := (files ?w2)(METADATA_PATH env \<mapsto> to_csv env False df)\<rparr>"
  have s: "save_metadata env ty fn t ?w2 = (Inr (), ?w3)"
    by (rule save_metadata_ok) (simp add: metadata_frame_ui assms(3))
  have f: "files ?w3 (METADATA_PATH env) = Some (to_csv env False df)" by simp
  let ?w4 = "?w3\<lparr>hub := (hub ?w3)((Dataset, hf_repo_id env) \<mapsto>
                 published env ?w3 (to_csv env False df)),
               calls := calls ?w3 @ publish_calls env\<rparr>"
  have q: "published env ?w3 (to_csv env False df) =
           published env (w\<lparr>files := (files w)(METADATA_PATH env \<mapsto> to_csv env False df)\<rparr>)
             (to_csv env False df)"
    by (rule published_cong) simp_all
  have "transcribe_and_publish env msg (p, fn, ty) w =
        and_then (save_metadata env ty fn t ?w2)
          (\<lambda>_ w2. and_then (push_to_huggingface env w2)
             (\<lambda>_ w3. (Inr (), w3\<lparr>ui := ui w3 @ [Success msg]\<rparr>)))"
    using assms(2) by (simp add: transcribe_and_publish_def a w1)
  also have "\<dots> = and_then (push_to_huggingface env ?w3)
             (\<lambda>_ w3. (Inr (), w3\<lparr>ui := ui w3 @ [Success msg]\<rparr>))"
    by (simp only: s and_then_def prod.case sum.case)
  also have "\<dots> = (Inr (), ?w4\<lparr>ui := ui ?w4 @ [Success msg]\<rparr>)"
    by (simp only: push_to_huggingface_ok [OF f] and_then_def prod.case sum.case)
  also have "\<dots> = (Inr (),
      w\<lparr>files := (files w)(METADATA_PATH env \<mapsto> to_csv env False df),
        hub := (hub w)((Dataset, hf_repo_id env) \<mapsto>
                 published env (w\<lparr>files := (files w)(METADATA_PATH env \<mapsto> to_csv env False df)\<rparr>)
                   (to_csv env False df)),
        calls := calls w @ publish_calls env,
        ui := ui w @ [Markdown ''### Transcription'', Written t, Success msg]\<rparr>)"
    unfolding q by simp
  finally show ?thesis .
qed

lemma transcribe_and_publish_unreadable:
  assumes "fst (transcribe_audio env p w) = Some t" and "t \<noteq> []"
    and "metadata_frame env ty fn t w = Inl e"
  shows "transcribe_and_publish env msg (p, fn, ty) w =
     (Inl e, w\<lparr>ui := ui w @ [Markdown ''### Transcription'', Written t]\<rparr>)"
proof -
  obtain w1 where a: "transcribe_audio env p w = (Some t, w1)"
    using assms(1) by (cases "transcribe_audio env p w") simp
  from transcribe_audio_cases [OF a] have w1: "w1 = w" by simp
  let ?w2 = "w\<lparr>ui := ui w @ [Markdown ''### Transcription'', Written t]\<rparr>"
  have s: "save_metadata env ty fn t ?w2 = (Inl e, ?w2)"
    by (rule save_metadata_raises) (simp add: metadata_frame_ui assms(3))
  show ?thesis
    using assms(2) by (simp add: transcribe_and_publish_def a w1 s and_then_def)
qed

section \<open>The executable instance\<close>

lemma decode_encode_ascii: "decode_ascii (encode_ascii s) = s"
proof -
  have "char_of (unat (of_nat (of_char c) :: byte)) = c" for c :: char
  proof -
    have "(of_char c :: nat) < 256" by (rule nat_of_char_less_256)
    then have "unat (of_nat (of_char c) :: byte) = of_char c"
      by (simp add: unat_of_nat)
    then show ?thesis by simp
  qed
  then show ?thesis
    by (simp add: decode_ascii_def encode_ascii_def comp_def map_idI)
qed

lemma METADATA_PATH_demo: "METADATA_PATH (demo_env m) = ''/app/data/metadata.csv''"
  by (simp add: METADATA_PATH_def DATA_DIR_def demo_env_def path_join_def)

lemma demo_env_simps:
  "read_csv (demo_env m) = plain_read_csv" "to_csv (demo_env m) = plain_to_csv"
  "model_transcribe (demo_env m) = m" "hf_repo_id (demo_env m) = ''user/voices''"
  "hf_token (demo_env m) = ''hf_token''" "base_dir (demo_env m) = ''/app''"
  by (simp_all add: demo_env_def)

lemma read_ledger1:
  "plain_read_csv ledger1 =
     Inr \<lparr>columns = [''audio'', ''text''],
          rows = [[Str ''audio/uploaded/a.mp3'', Str '' hello'']]\<rparr>"
  by (simp add: ledger1_def plain_read_csv_def plain_to_csv_def decode_encode_ascii new_row_def
      enumerate_eq_zip parse_cell_def Let_def)

lemma two_rows:
  "pd_concat \<lparr>columns = [''audio'', ''text''],
              rows = [[Str ''audio/uploaded/a.mp3'', Str '' hello'']]\<rparr>
     (new_row ''recorded'' ''b.wav'' '' bye'') =
   \<lparr>columns = [''audio'', ''text''],
    rows = [[Str ''audio/uploaded/a.mp3'', Str '' hello''],
            [Str ''audio/recorded/b.wav'', Str '' bye'']]\<rparr>"
  by (simp add: pd_concat_def concat_row_def new_row_def reindex_def cell_at_def Let_def)

lemma plain_two_rows:
  "decode_ascii (plain_to_csv False
     \<lparr>columns = [''audio'', ''text''],
      rows = [[Str ''audio/uploaded/a.mp3'', Str '' hello''],
              [Str ''audio/recorded/b.wav'', Str '' bye'']]\<rparr>) =
   ''audio,text'' @ [CHR 0x0A] @ ''audio/uploaded/a.mp3, hello'' @ [CHR 0x0A] @
   ''audio/recorded/b.wav, bye'' @ [CHR 0x0A]"
  by (simp add: plain_to_csv_def decode_encode_ascii enumerate_eq_zip upt_rec)

lemma plain_two_rows_index:
  "decode_ascii (plain_to_csv True
     \<lparr>columns = [''audio'', ''text''],
      rows = [[Str ''audio/uploaded/a.mp3'', Str '' hello''],
              [Str ''audio/recorded/b.wav'', Str '' bye'']]\<rparr>) =
   '',audio,text'' @ [CHR 0x0A] @ ''0,audio/uploaded/a.mp3, hello'' @ [CHR 0x0A] @
   ''1,audio/recorded/b.wav, bye'' @ [CHR 0x0A]"
  by (simp add: plain_to_csv_def decode_encode_ascii enumerate_eq_zip upt_rec)

section \<open>The ledger under the reader of pandas\<close>

lemma METADATA_PATH_pandas: "METADATA_PATH (pandas_env m) = ''/app/data/metadata.csv''"
  by (simp add: METADATA_PATH_def DATA_DIR_def pandas_env_def path_join_def)

lemma pandas_env_simps:
  "read_csv (pandas_env m) = pandas_read_csv" "to_csv (pandas_env m) = pandas_to_csv"
  by (simp_all add: pandas_env_def)

lemma pandas_write_first:
  "pandas_to_csv False (new_row ''uploaded'' ''a.mp3'' ''NA'') =
     text_file [''audio,text'', ''audio/uploaded/a.mp3,NA'']"
  by (simp add: pandas_to_csv_def new_row_def csv_row_def quote_field_def text_file_def
      enumerate_eq_zip)

lemma pandas_read_first:
  "pandas_read_csv (text_file [''audio,text'', ''audio/uploaded/a.mp3,NA'']) =
     Inr \<lparr>columns = [''audio'', ''text''], rows = [[Str ''audio/uploaded/a.mp3'', NaN]]\<rparr>"
  by (simp add: pandas_read_csv_def text_file_def decode_encode_ascii is_eol_def is_space_def
      read_column_def read_field_def NA_VALUES_def parse_int64_def ascii_space_def ascii_digit_def
      TRUE_VALUES_def FALSE_VALUES_def Let_def)

lemma files_ledger_world:
  "files (ledger_world csv) (METADATA_PATH (pandas_env m)) = Some csv"
  by (simp add: ledger_world_def METADATA_PATH_pandas)

lemma save_metadata_first:
  "files w (METADATA_PATH (pandas_env m)) = None \<Longrightarrow>
   save_metadata (pandas_env m) ty fn t w =
     (Inr (), w\<lparr>files := (files w)(''/app/data/metadata.csv'' \<mapsto>
        pandas_to_csv False (new_row ty fn t))\<rparr>)"
  using save_metadata_ok [OF metadata_frame_new, of w "pandas_env m" ty fn t]
  by (simp add: METADATA_PATH_pandas pandas_env_simps)

lemma save_metadata_next:
  "pandas_read_csv csv = Inr df \<Longrightarrow>
   save_metadata (pandas_env m) ty fn t (ledger_world csv) =
     (Inr (), ledger_world (pandas_to_csv False (pd_concat df (new_row ty fn t))))"
  using save_metadata_ok [OF metadata_frame_existing, of "ledger_world csv" "pandas_env m" csv df ty fn t]
  by (simp add: files_ledger_world pandas_env_simps) (simp add: ledger_world_def METADATA_PATH_pandas)

lemma pandas_write_second:
  "pandas_to_csv False
     (pd_concat \<lparr>columns = [''audio'', ''text''], rows = [[Str ''audio/uploaded/a.mp3'', NaN]]\<rparr>
        (new_row ''recorded'' ''b.wav'' '' hello'')) =
   text_file [''audio,text'', ''audio/uploaded/a.mp3,'', ''audio/recorded/b.wav, hello'']"
  by (simp add: pandas_to_csv_def pd_concat_def concat_row_def new_row_def reindex_def cell_at_def Let_def
      csv_row_def quote_field_def text_file_def enumerate_eq_zip)

text \<open>A transcript with a comma is quoted and read back whole.\<close>

lemma pandas_write_comma:
  "pandas_to_csv False (new_row ''uploaded'' ''a.mp3'' '' hello, world'') =
     text_file [''audio,text'', ''audio/uploaded/a.mp3,'' @ [CHR 0x22] @ '' hello, world'' @ [CHR 0x22]]"
  by (simp add: pandas_to_csv_def new_row_def csv_row_def quote_field_def text_file_def
      enumerate_eq_zip)

lemma pandas_read_comma:
  "pandas_read_csv
     (text_file [''audio,text'', ''audio/uploaded/a.mp3,'' @ [CHR 0x22] @ '' hello, world'' @ [CHR 0x22]]) =
   Inr (new_row ''uploaded'' ''a.mp3'' '' hello, world'')"
  by (simp add: pandas_read_csv_def text_file_def decode_encode_ascii is_eol_def is_space_def
      read_column_def read_field_def NA_VALUES_def parse_int64_def ascii_space_def ascii_digit_def
      TRUE_VALUES_def FALSE_VALUES_def Let_def new_row_def)

text \<open>A transcript that reads as a number is written back as the number.\<close>

lemma pandas_read_number:
  "pandas_read_csv (text_file [''audio,text'', ''audio/uploaded/a.mp3, 42'']) =
     Inr \<lparr>columns = [''audio'', ''text''], rows = [[Str ''audio/uploaded/a.mp3'', Scalar ''42'']]\<rparr>"
  by (simp add: pandas_read_csv_def text_file_def decode_encode_ascii is_eol_def is_space_def
      read_column_def read_field_def NA_VALUES_def parse_int64_def ascii_space_def ascii_digit_def
      TRUE_VALUES_def FALSE_VALUES_def show_int_def Let_def)

lemma pandas_write_number:
  "pandas_to_csv False
     (pd_concat \<lparr>columns = [''audio'', ''text''],
                 rows = [[Str ''audio/uploaded/a.mp3'', Scalar ''42'']]\<rparr>
        (new_row ''recorded'' ''b.wav'' '' hello'')) =
   text_file [''audio,text'', ''audio/uploaded/a.mp3,42'', ''audio/recorded/b.wav, hello'']"
  by (simp add: pandas_to_csv_def pd_concat_def concat_row_def new_row_def reindex_def cell_at_def
      Let_def csv_row_def quote_field_def text_file_def enumerate_eq_zip)

lemma append_rewrites_number:
  "save_metadata (pandas_env m) ''recorded'' ''b.wav'' '' hello''
       (ledger_world (text_file [''audio,text'', ''audio/uploaded/a.mp3, 42''])) =
     (Inr (), ledger_world (text_file
        [''audio,text'', ''audio/uploaded/a.mp3,42'', ''audio/recorded/b.wav, hello'']))"
  by (simp only: save_metadata_next [OF pandas_read_number] pandas_write_number)

section \<open>The tabs\<close>

lemma wavfile_write_ui:
  "wavfile_write p rate xs (w\<lparr>ui := x\<rparr>) =
   (fst (wavfile_write p rate xs w), (snd (wavfile_write p rate xs w))\<lparr>ui := x\<rparr>)"
  by (simp add: wavfile_write_def Let_def)

lemma save_recorded_audio_ui:
  "save_recorded_audio env u ab (w\<lparr>ui := x\<rparr>) =
   (fst (save_recorded_audio env u ab w), (snd (save_recorded_audio env u ab w))\<lparr>ui := x\<rparr>)"
proof (cases "frombuffer ab")
  case (Inl e)
  then show ?thesis by (simp add: save_recorded_audio_def Let_def)
next
  case (Inr xs)
  obtain r0 w0 where b: "wavfile_write (path_join (RECORDED_DIR env) (str_uuid u @ ''.wav'')) 44100 xs w = (r0, w0)"
    by (cases "wavfile_write (path_join (RECORDED_DIR env) (str_uuid u @ ''.wav'')) 44100 xs w")
  show ?thesis
    using Inr b
    by (cases r0) (simp_all add: save_recorded_audio_def Let_def and_then_def wavfile_write_ui)
qed

lemma transcribe_and_publish_raises:
  assumes "model_transcribe env (files w) p = Inl e"
  shows "transcribe_and_publish env msg (p, fn, ty) w =
     (Inr (), w\<lparr>ui := ui w @ [Error (''Transcription failed: '' @ str_exn e)]\<rparr>)"
  using transcribe_and_publish_skip [of env p w msg fn ty]
  by (simp add: transcribe_audio_raises [OF assms])

lemma record_tab_saved:
  assumes "ab \<noteq> []" and "save_recorded_audio env u ab w = (Inr saved, w1)"
  shows "record_tab env u (Some ab) w =
     transcribe_and_publish env ''Recorded audio saved & uploaded!'' saved
       (w1\<lparr>ui := ui w @ [Audio, Success ''Audio recorded successfully!'']\<rparr>)"
  using assms by (simp add: record_tab_def save_recorded_audio_ui and_then_def)

lemma upload_tab_saved:
  assumes "save_uploaded_file env u f w = (Inr saved, w1)"
  shows "upload_tab env u (Some f) w =
     transcribe_and_publish env ''Uploaded audio saved & uploaded!'' saved
       (w1\<lparr>ui := ui w1 @ [Audio]\<rparr>)"
  using assms by (simp add: upload_tab_def and_then_def)

lemma clip_name: "clip = \<lparr>name = ''clip'' @ ''.'' @ ''MP3'', content = [73, 68, 51, 4]\<rparr>"
  by (simp add: clip_def)

lemma clip_accepted: "uploader_accepts (name clip)"
  by (simp add: uploader_accepts_def clip_def accepted_types_def UPLOAD_TYPES_def lower_def
      lower_char_def Let_def)

lemma save_clip:
  "save_uploaded_file (demo_env m) 1 clip w =
     (Inr (''/app/audio/uploaded/00000000-0000-0000-0000-000000000001.mp3'',
           ''00000000-0000-0000-0000-000000000001.mp3'', ''uploaded''),
      w\<lparr>files := (files w)
         (''/app/audio/uploaded/00000000-0000-0000-0000-000000000001.mp3'' \<mapsto> [73, 68, 51, 4])\<rparr>)"
proof -
  have d: "CHR ''.'' \<notin> set ''MP3''" by simp
  have n: "str_uuid 1 @ ''.'' @ lower ''MP3'' = ''00000000-0000-0000-0000-000000000001.mp3''"
    by (simp add: str_uuid_1 lower_MP3)
  show ?thesis
    unfolding clip_name save_uploaded_file_eq [OF d] n
    by (simp add: UPLOADED_DIR_demo path_join_def)
qed

lemma save_two_samples:
  "\<exists>wav. save_recorded_audio (demo_env m) 1 (tobytes [0, 1000]) w =
     (Inr (''/app/audio/recorded/00000000-0000-0000-0000-000000000001.wav'',
           ''00000000-0000-0000-0000-000000000001.wav'', ''recorded''),
      w\<lparr>files := (files w)
         (''/app/audio/recorded/00000000-0000-0000-0000-000000000001.wav'' \<mapsto> wav)\<rparr>)"
proof -
  have s: "36 + 2 * length [0, 1000 :: 16 word] \<le> 4294967295" by simp
  have n: "str_uuid 1 @ ''.wav'' = ''00000000-0000-0000-0000-000000000001.wav''"
    by (simp add: str_uuid_1)
  have p: "path_join (RECORDED_DIR (demo_env m)) ''00000000-0000-0000-0000-000000000001.wav'' =
           ''/app/audio/recorded/00000000-0000-0000-0000-000000000001.wav''"
    by (simp add: RECORDED_DIR_demo path_join_def)
  show ?thesis
    unfolding save_recorded_audio_ok [OF s] n p by blast
qed

lemma transcribe_hello: "transcribe_audio (demo_env model_hello) q v = (Some '' hello'', v)"
  by (simp add: transcribe_audio_def demo_env_simps model_hello_def)

lemma first_frame:
  "metadata_frame (demo_env m) ''uploaded'' ''a.mp3'' '' hello'' empty_world =
     Inr (new_row ''uploaded'' ''a.mp3'' '' hello'')"
  by (rule metadata_frame_new) (simp add: empty_world_def)

section \<open>The schema of the ledger is kept\<close>

lemma two_columns_cases:
  "two_columns env w \<Longrightarrow>
   files w (METADATA_PATH env) = None \<or>
   (\<exists>csv df. files w (METADATA_PATH env) = Some csv \<and> read_csv env csv = Inr df \<and>
      columns df = [''audio'', ''text''])"
  by (auto simp add: two_columns_def split: option.splits sum.splits)

lemma save_metadata_two_columns:
  assumes codec: "\<forall>df. columns df = [''audio'', ''text''] \<longrightarrow>
      (\<exists>d. read_csv env (to_csv env False df) = Inr d \<and> columns d = [''audio'', ''text''])"
    and w: "two_columns env w"
  shows "\<exists>w'. save_metadata env ty fn t w = (Inr (), w') \<and> two_columns env w'"
proof -
  have "\<exists>df'. metadata_frame env ty fn t w = Inr df' \<and> columns df' = [''audio'', ''text'']"
  proof (rule disjE [OF two_columns_cases [OF w]])
    assume "files w (METADATA_PATH env) = None"
    then show ?thesis
      by (simp add: metadata_frame_new new_row_def)
  next
    assume "\<exists>csv df. files w (METADATA_PATH env) = Some csv \<and> read_csv env csv = Inr df \<and>
      columns df = [''audio'', ''text'']"
    then obtain csv df where a: "files w (METADATA_PATH env) = Some csv"
      and b: "read_csv env csv = Inr df" and c: "columns df = [''audio'', ''text'']"
      by (elim exE conjE)
    show ?thesis
      using pd_concat_two_columns [OF c, of ty fn t]
      by (simp add: metadata_frame_existing [OF a b])
  qed
  then obtain df' where m: "metadata_frame env ty fn t w = Inr df'"
    and c: "columns df' = [''audio'', ''text'']"
    by (elim exE conjE)
  from codec [rule_format, OF c] obtain d where d: "read_csv env (to_csv env False df') = Inr d"
    and e: "columns d = [''audio'', ''text'']"
    by (elim exE conjE)
  have "two_columns env (w\<lparr>files := (files w)(METADATA_PATH env \<mapsto> to_csv env False df')\<rparr>)"
    by (simp add: two_columns_def d e)
  with save_metadata_ok [OF m] show ?thesis by simp
qed

lemma appends_two_columns:
  assumes codec: "\<forall>df. columns df = [''audio'', ''text''] \<longrightarrow>
      (\<exists>d. read_csv env (to_csv env False df) = Inr d \<and> columns d = [''audio'', ''text''])"
  shows "two_columns env w \<Longrightarrow> \<exists>w'. appends env rs w = (Inr (), w') \<and> two_columns env w'"
proof (induction rs arbitrary: w)
  case Nil
  then show ?case by simp
next
  case (Cons r rs)
  obtain ty fn t where r: "r = (ty, fn, t)" by (cases r)
  from save_metadata_two_columns [OF codec Cons.prems, of ty fn t]
  obtain w1 where s: "save_metadata env ty fn t w = (Inr (), w1)" and t: "two_columns env w1"
    by (elim exE conjE)
  from Cons.IH [OF t] show ?case
    by (simp add: r s and_then_def)
qed

lemma split_on_Cons_other:
  "c \<noteq> sep \<Longrightarrow> split_on sep (c # cs) = (c # hd (split_on sep cs)) # tl (split_on sep cs)"
  by (simp add: Let_def)

lemma plain_codec_two_columns:
  assumes "columns df = [''audio'', ''text'']"
  shows "\<exists>d. plain_read_csv (plain_to_csv False df) = Inr d \<and>
             columns d = [''audio'', ''text'']"
proof -
  define body where "body = concat (map (\<lambda>fields. join_with '','' fields @ [CHR 0x0A])
          (map (\<lambda>(i, r). map render_cell r) (enumerate 0 (rows df))))"
  have e: "decode_ascii (plain_to_csv False df) = ''audio,text'' @ CHR 0x0A # body"
    by (simp add: plain_to_csv_def decode_encode_ascii assms body_def)
  have n: "CHR 0x0A \<notin> set ''audio,text''" by simp
  have s: "split_on (CHR 0x0A) (''audio,text'' @ CHR 0x0A # body) =
           ''audio,text'' # split_on (CHR 0x0A) body"
    unfolding split_on_append by (simp add: Let_def)
  have c: "split_on (CHR '','') ''audio,text'' = [''audio'', ''text'']"
    by (simp add: Let_def)
  show ?thesis
    by (simp add: plain_read_csv_def e s c)
qed

lemma demo_appends_two_columns:
  "\<exists>w'. appends (demo_env m) rs empty_world = (Inr (), w') \<and> two_columns (demo_env m) w'"
proof (rule appends_two_columns)
  show "\<forall>df. columns df = [''audio'', ''text''] \<longrightarrow>
      (\<exists>d. read_csv (demo_env m) (to_csv (demo_env m) False df) = Inr d \<and>
           columns d = [''audio'', ''text''])"
    by (simp add: demo_env_simps plain_codec_two_columns)
  show "two_columns (demo_env m) empty_world"
    by (simp add: two_columns_def empty_world_def)
qed

section \<open>A failed transcription ends the run for the sample\<close>

text \<open>
  Claim C1. When the model call raises, \<^verbatim>\<open>transcribe_audio\<close> does not raise: it reports the
  error on the page and returns \<^verbatim>\<open>None\<close>; the steps after it end normally with nothing
  but that report added to the world. So in either tab, for a sample that was persisted
  and on which the model raises, the run ends normally, the ledger file is what it was
  before the submission, and no call to the hosted API is made.
\<close>

theorem transcription_failure_short_circuit:
  "(model_transcribe env (files w) p = Inl e \<longrightarrow>
      transcribe_audio env p w =
        (None, w\<lparr>ui := ui w @ [Error (''Transcription failed: '' @ str_exn e)]\<rparr>) \<and>
      transcribe_and_publish env msg (p, fn, ty) w =
        (Inr (), w\<lparr>ui := ui w @ [Error (''Transcription failed: '' @ str_exn e)]\<rparr>)) \<and>
   (\<forall>saved w1.
      ab \<noteq> [] \<and> save_recorded_audio env u ab w = (Inr saved, w1) \<and>
      model_transcribe env (files w1) (fst saved) = Inl e \<longrightarrow>
      (\<exists>w'. record_tab env u (Some ab) w = (Inr (), w') \<and>
            files w' (METADATA_PATH env) = files w (METADATA_PATH env) \<and>
            calls w' = calls w \<and> hub w' = hub w \<and>
            ui w' = ui w @ [Audio, Success ''Audio recorded successfully!'',
                            Error (''Transcription failed: '' @ str_exn e)])) \<and>
   (\<forall>saved w1.
      save_uploaded_file env u f w = (Inr saved, w1) \<and>
      model_transcribe env (files w1) (fst saved) = Inl e \<longrightarrow>
      (\<exists>w'. upload_tab env u (Some f) w = (Inr (), w') \<and>
            files w' (METADATA_PATH env) = files w (METADATA_PATH env) \<and>
            calls w' = calls w \<and> hub w' = hub w \<and>
            ui w' = ui w @ [Audio, Error (''Transcription failed: '' @ str_exn e)]))"
proof (intro conjI allI impI)
  assume a: "model_transcribe env (files w) p = Inl e"
  show "transcribe_audio env p w =
        (None, w\<lparr>ui := ui w @ [Error (''Transcription failed: '' @ str_exn e)]\<rparr>)"
    by (rule transcribe_audio_raises [OF a])
  show "transcribe_and_publish env msg (p, fn, ty) w =
        (Inr (), w\<lparr>ui := ui w @ [Error (''Transcription failed: '' @ str_exn e)]\<rparr>)"
    by (rule transcribe_and_publish_raises [OF a])
next
  fix saved w1
  assume a: "ab \<noteq> [] \<and> save_recorded_audio env u ab w = (Inr saved, w1) \<and>
      model_transcribe env (files w1) (fst saved) = Inl e"
  obtain sp sn st where s: "saved = (sp, sn, st)" by (cases saved)
  let ?w0 = "w1\<lparr>ui := ui w @ [Audio, Success ''Audio recorded successfully!'']\<rparr>"
  let ?w' = "?w0\<lparr>ui := ui ?w0 @ [Error (''Transcription failed: '' @ str_exn e)]\<rparr>"
  have m: "model_transcribe env (files ?w0) sp = Inl e" using a s by simp
  have "record_tab env u (Some ab) w =
        transcribe_and_publish env ''Recorded audio saved & uploaded!'' (sp, sn, st) ?w0"
    using a record_tab_saved [of ab env u w saved w1] by (simp add: s)
  then have 1: "record_tab env u (Some ab) w = (Inr (), ?w')"
    by (simp only: transcribe_and_publish_raises [OF m])
  from a save_recorded_audio_frame [of env u ab w "Inr saved" w1]
  have 2: "files ?w' (METADATA_PATH env) = files w (METADATA_PATH env) \<and>
           calls ?w' = calls w \<and> hub ?w' = hub w \<and>
           ui ?w' = ui w @ [Audio, Success ''Audio recorded successfully!'',
                            Error (''Transcription failed: '' @ str_exn e)]"
    by simp
  show "\<exists>w'. record_tab env u (Some ab) w = (Inr (), w') \<and>
            files w' (METADATA_PATH env) = files w (METADATA_PATH env) \<and>
            calls w' = calls w \<and> hub w' = hub w \<and>
            ui w' = ui w @ [Audio, Success ''Audio recorded successfully!'',
                            Error (''Transcription failed: '' @ str_exn e)]"
    using 1 2 by blast
next
  fix saved w1
  assume a: "save_uploaded_file env u f w = (Inr saved, w1) \<and>
      model_transcribe env (files w1) (fst saved) = Inl e"
  obtain sp sn st where s: "saved = (sp, sn, st)" by (cases saved)
  let ?w0 = "w1\<lparr>ui := ui w1 @ [Audio]\<rparr>"
  let ?w' = "?w0\<lparr>ui := ui ?w0 @ [Error (''Transcription failed: '' @ str_exn e)]\<rparr>"
  have m: "model_transcribe env (files ?w0) sp = Inl e" using a s by simp
  have "upload_tab env u (Some f) w =
        transcribe_and_publish env ''Uploaded audio saved & uploaded!'' (sp, sn, st) ?w0"
    using a upload_tab_saved [of env u f w saved w1] by (simp add: s)
  then have 1: "upload_tab env u (Some f) w = (Inr (), ?w')"
    by (simp only: transcribe_and_publish_raises [OF m])
  from a save_uploaded_file_frame [of env u f w "Inr saved" w1]
  have 2: "files ?w' (METADATA_PATH env) = files w (METADATA_PATH env) \<and>
           calls ?w' = calls w \<and> hub ?w' = hub w \<and>
           ui ?w' = ui w @ [Audio, Error (''Transcription failed: '' @ str_exn e)]"
    by simp
  show "\<exists>w'. upload_tab env u (Some f) w = (Inr (), w') \<and>
            files w' (METADATA_PATH env) = files w (METADATA_PATH env) \<and>
            calls w' = calls w \<and> hub w' = hub w \<and>
            ui w' = ui w @ [Audio, Error (''Transcription failed: '' @ str_exn e)]"
    using 1 2 by blast
qed

theorem transcription_failure_short_circuit_witness:
  "tobytes [0, 1000] \<noteq> [] \<and>
   model_transcribe (demo_env model_broken) (files empty_world)
     ''/app/audio/recorded/00000000-0000-0000-0000-000000000001.wav'' =
     Inl (Exn RuntimeError ''Failed to load audio'') \<and>
   transcribe_audio (demo_env model_broken)
     ''/app/audio/recorded/00000000-0000-0000-0000-000000000001.wav'' empty_world =
     (None, empty_world\<lparr>ui := [Error ''Transcription failed: Failed to load audio'']\<rparr>) \<and>
   (\<exists>w'. record_tab (demo_env model_broken) 1 (Some (tobytes [0, 1000])) empty_world = (Inr (), w') \<and>
         files w' ''/app/data/metadata.csv'' = None \<and> calls w' = [] \<and>
         hub w' = hub empty_world \<and>
         ui w' = [Audio, Success ''Audio recorded successfully!'',
                  Error ''Transcription failed: Failed to load audio'']) \<and>
   (\<exists>w'. upload_tab (demo_env model_broken) 1 (Some clip) empty_world = (Inr (), w') \<and>
         files w' ''/app/data/metadata.csv'' = None \<and> calls w' = [] \<and>
         hub w' = hub empty_world \<and>
         ui w' = [Audio, Error ''Transcription failed: Failed to load audio''])"
proof -
  let ?D = "demo_env model_broken"
  let ?e = "Exn RuntimeError ''Failed to load audio''"
  let ?p = "''/app/audio/recorded/00000000-0000-0000-0000-000000000001.wav''"
  note t = transcription_failure_short_circuit [of ?D empty_world ?p ?e _ _ _ "tobytes [0, 1000]" 1 clip]
  have n: "tobytes [0, 1000] \<noteq> []" by (simp add: tobytes_def)
  have m: "model_transcribe ?D fs q = Inl ?e" for fs q
    by (simp add: demo_env_simps model_broken_def)
  have a: "transcribe_audio ?D ?p empty_world =
     (None, empty_world\<lparr>ui := [Error ''Transcription failed: Failed to load audio'']\<rparr>)"
    using t [THEN conjunct1, rule_format, OF m] by (simp add: empty_world_def)
  obtain wav where r: "save_recorded_audio ?D 1 (tobytes [0, 1000]) empty_world =
     (Inr (?p, ''00000000-0000-0000-0000-000000000001.wav'', ''recorded''),
      empty_world\<lparr>files := (files empty_world)(?p \<mapsto> wav)\<rparr>)"
    using save_two_samples by blast
  from t [THEN conjunct2, THEN conjunct1, rule_format, OF conjI [OF n conjI [OF r m]]]
  have b: "\<exists>w'. record_tab ?D 1 (Some (tobytes [0, 1000])) empty_world = (Inr (), w') \<and>
         files w' ''/app/data/metadata.csv'' = None \<and> calls w' = [] \<and>
         hub w' = hub empty_world \<and>
         ui w' = [Audio, Success ''Audio recorded successfully!'',
                  Error ''Transcription failed: Failed to load audio'']"
    by (simp add: METADATA_PATH_demo empty_world_def)
  from t [THEN conjunct2, THEN conjunct2, rule_format, OF conjI [OF save_clip m]]
  have c: "\<exists>w'. upload_tab ?D 1 (Some clip) empty_world = (Inr (), w') \<and>
         files w' ''/app/data/metadata.csv'' = None \<and> calls w' = [] \<and>
         hub w' = hub empty_world \<and>
         ui w' = [Audio, Error ''Transcription failed: Failed to load audio'']"
    by (simp add: METADATA_PATH_demo empty_world_def)
  show ?thesis by (intro conjI n m a b c)
qed

section \<open>An append and the rows of the ledger\<close>

text \<open>
  Claim C2 says that an append to a ledger of N rows gives a ledger of N + 1 rows whose
  first N rows are unchanged in content and whose last row is the new one, and that without
  a ledger file the new row is the whole ledger. The program does not keep the first rows
  in content. \<^verbatim>\<open>save_metadata\<close> reads the ledger with \<^verbatim>\<open>pd.read_csv\<close> under its defaults, which
  take a field such as \<^verbatim>\<open>NA\<close> for a missing value, and writes the frame back. So, with no
  ledger file, the append of the transcript \<^verbatim>\<open>NA\<close> for \<^verbatim>\<open>a.mp3\<close> writes the one row
  \<^verbatim>\<open>audio/uploaded/a.mp3,NA\<close>; that file is read as a row whose text is missing; and the next
  append, of the transcript \<^verbatim>\<open> hello\<close> for \<^verbatim>\<open>b.wav\<close>, writes two rows of which the first is
  \<^verbatim>\<open>audio/uploaded/a.mp3,\<close>: the transcript of the first row is gone. (Lemma
  \<open>append_rewrites_number\<close> has the like for a transcript that reads as a number.)
\<close>

theorem append_loses_NA_transcript:
  "save_metadata (pandas_env model_hello) ''uploaded'' ''a.mp3'' ''NA'' empty_world =
     (Inr (), ledger_world (text_file [''audio,text'', ''audio/uploaded/a.mp3,NA''])) \<and>
   pandas_read_csv (text_file [''audio,text'', ''audio/uploaded/a.mp3,NA'']) =
     Inr \<lparr>columns = [''audio'', ''text''], rows = [[Str ''audio/uploaded/a.mp3'', NaN]]\<rparr> \<and>
   save_metadata (pandas_env model_hello) ''recorded'' ''b.wav'' '' hello''
       (ledger_world (text_file [''audio,text'', ''audio/uploaded/a.mp3,NA''])) =
     (Inr (), ledger_world (text_file
        [''audio,text'', ''audio/uploaded/a.mp3,'', ''audio/recorded/b.wav, hello'']))"
proof (intro conjI)
  have "files empty_world (METADATA_PATH (pandas_env model_hello)) = None"
    by (simp add: empty_world_def)
  from save_metadata_first [OF this]
  show "save_metadata (pandas_env model_hello) ''uploaded'' ''a.mp3'' ''NA'' empty_world =
     (Inr (), ledger_world (text_file [''audio,text'', ''audio/uploaded/a.mp3,NA'']))"
    by (simp only: pandas_write_first ledger_world_def)
next
  show "pandas_read_csv (text_file [''audio,text'', ''audio/uploaded/a.mp3,NA'']) =
     Inr \<lparr>columns = [''audio'', ''text''], rows = [[Str ''audio/uploaded/a.mp3'', NaN]]\<rparr>"
    by (rule pandas_read_first)
next
  show "save_metadata (pandas_env model_hello) ''recorded'' ''b.wav'' '' hello''
       (ledger_world (text_file [''audio,text'', ''audio/uploaded/a.mp3,NA''])) =
     (Inr (), ledger_world (text_file
        [''audio,text'', ''audio/uploaded/a.mp3,'', ''audio/recorded/b.wav, hello'']))"
    by (simp only: save_metadata_next [OF pandas_read_first] pandas_write_second)
qed

section \<open>A row is written for a non-empty transcript only\<close>

text \<open>
  Claim C3, as amended. After a sample is persisted, a row is written exactly when
  \<^verbatim>\<open>transcribe_audio\<close> returns a transcript that is not empty (and the ledger, if there is
  one, can be read): the ledger file is then \<^verbatim>\<open>to_csv\<close> of a frame whose last row has the
  transcript as its \<^verbatim>\<open>text\<close> cell, a string, never a missing value and never empty. When
  \<^verbatim>\<open>transcribe_audio\<close> returns \<^verbatim>\<open>None\<close> or the empty string the run ends normally and no
  file is changed; when the ledger cannot be read the error propagates and no file is
  changed.
\<close>

theorem row_written_iff_transcript_nonempty:
  "(\<forall>t df. fst (transcribe_audio env p w) = Some t \<and> t \<noteq> [] \<and>
           metadata_frame env ty fn t w = Inr df \<longrightarrow>
      fst (transcribe_and_publish env msg (p, fn, ty) w) = Inr () \<and>
      files (snd (transcribe_and_publish env msg (p, fn, ty) w)) (METADATA_PATH env) =
        Some (to_csv env False df) \<and>
      rows df \<noteq> [] \<and>
      df_cell df (length (rows df) - 1) ''text'' = Str t \<and>
      df_cell df (length (rows df) - 1) ''text'' \<noteq> NaN \<and>
      df_cell df (length (rows df) - 1) ''audio'' = Str (''audio/'' @ ty @ ''/'' @ fn)) \<and>
   (fst (transcribe_audio env p w) = None \<or> fst (transcribe_audio env p w) = Some [] \<longrightarrow>
      fst (transcribe_and_publish env msg (p, fn, ty) w) = Inr () \<and>
      files (snd (transcribe_and_publish env msg (p, fn, ty) w)) = files w) \<and>
   (\<forall>t e. fst (transcribe_audio env p w) = Some t \<and> t \<noteq> [] \<and>
          metadata_frame env ty fn t w = Inl e \<longrightarrow>
      fst (transcribe_and_publish env msg (p, fn, ty) w) = Inl e \<and>
      files (snd (transcribe_and_publish env msg (p, fn, ty) w)) = files w)"
proof (intro conjI allI impI)
  fix t df
  assume a: "fst (transcribe_audio env p w) = Some t \<and> t \<noteq> [] \<and>
           metadata_frame env ty fn t w = Inr df"
  then have a1: "fst (transcribe_audio env p w) = Some t" and a2: "t \<noteq> []"
    and a3: "metadata_frame env ty fn t w = Inr df" by simp_all
  note r = transcribe_and_publish_ok [OF a1 a2 a3, of msg]
  show "fst (transcribe_and_publish env msg (p, fn, ty) w) = Inr ()"
    by (simp only: r fst_conv)
  show "files (snd (transcribe_and_publish env msg (p, fn, ty) w)) (METADATA_PATH env) =
        Some (to_csv env False df)"
    unfolding r by simp
  note m = metadata_frame_rows [OF a3]
  show "rows df \<noteq> []" using m by simp
  show "df_cell df (length (rows df) - 1) ''text'' = Str t" using m by simp
  then show "df_cell df (length (rows df) - 1) ''text'' \<noteq> NaN" by simp
  show "df_cell df (length (rows df) - 1) ''audio'' = Str (''audio/'' @ ty @ ''/'' @ fn)"
    using m by simp
next
  assume a: "fst (transcribe_audio env p w) = None \<or> fst (transcribe_audio env p w) = Some []"
  note r = transcribe_and_publish_skip [OF a, of msg fn ty]
  show "fst (transcribe_and_publish env msg (p, fn, ty) w) = Inr ()"
    by (simp only: r fst_conv)
  show "files (snd (transcribe_and_publish env msg (p, fn, ty) w)) = files w"
    unfolding r using transcribe_audio_cases [of env p w "fst (transcribe_audio env p w)"
        "snd (transcribe_audio env p w)"]
    by simp
next
  fix t e
  assume a: "fst (transcribe_audio env p w) = Some t \<and> t \<noteq> [] \<and>
          metadata_frame env ty fn t w = Inl e"
  then have a1: "fst (transcribe_audio env p w) = Some t" and a2: "t \<noteq> []"
    and a3: "metadata_frame env ty fn t w = Inl e" by simp_all
  note r = transcribe_and_publish_unreadable [OF a1 a2 a3, of msg]
  show "fst (transcribe_and_publish env msg (p, fn, ty) w) = Inl e"
    by (simp only: r fst_conv)
  show "files (snd (transcribe_and_publish env msg (p, fn, ty) w)) = files w"
    unfolding r by simp
qed

theorem row_written_iff_transcript_nonempty_witness:
  "fst (transcribe_audio (demo_env model_hello) ''x.mp3'' empty_world) = Some '' hello'' \<and>
   '' hello'' \<noteq> [] \<and>
   metadata_frame (demo_env model_hello) ''uploaded'' ''a.mp3'' '' hello'' empty_world =
     Inr (new_row ''uploaded'' ''a.mp3'' '' hello'') \<and>
   fst (transcribe_and_publish (demo_env model_hello) ''done'' (''x.mp3'', ''a.mp3'', ''uploaded'')
          empty_world) = Inr () \<and>
   files (snd (transcribe_and_publish (demo_env model_hello) ''done''
          (''x.mp3'', ''a.mp3'', ''uploaded'') empty_world)) ''/app/data/metadata.csv'' =
     Some ledger1 \<and>
   df_cell (new_row ''uploaded'' ''a.mp3'' '' hello'') 0 ''text'' = Str '' hello'' \<and>
   fst (transcribe_audio (demo_env model_broken) ''x.mp3'' empty_world) = None \<and>
   files (snd (transcribe_and_publish (demo_env model_broken) ''done''
          (''x.mp3'', ''a.mp3'', ''uploaded'') empty_world)) = files empty_world \<and>
   metadata_frame (demo_env model_hello) ''uploaded'' ''a.mp3'' '' hello''
     (empty_world\<lparr>files := (files empty_world)(''/app/data/metadata.csv'' \<mapsto> [])\<rparr>) =
     Inl (Exn ParserError ''No columns to parse from file'') \<and>
   fst (transcribe_and_publish (demo_env model_hello) ''done'' (''x.mp3'', ''a.mp3'', ''uploaded'')
          (empty_world\<lparr>files := (files empty_world)(''/app/data/metadata.csv'' \<mapsto> [])\<rparr>)) =
     Inl (Exn ParserError ''No columns to parse from file'')"
proof -
  let ?H = "demo_env model_hello" and ?B = "demo_env model_broken"
  let ?v = "empty_world\<lparr>files := (files empty_world)(''/app/data/metadata.csv'' \<mapsto> [])\<rparr>"
  let ?e = "Exn ParserError ''No columns to parse from file''"
  have h1: "fst (transcribe_audio ?H ''x.mp3'' empty_world) = Some '' hello''"
    by (simp add: transcribe_hello)
  have h2: "'' hello'' \<noteq> []" by simp
  note h3 = first_frame [of model_hello]
  note t1 = row_written_iff_transcript_nonempty [of ?H "''x.mp3''" empty_world "''uploaded''"
      "''a.mp3''" "''done''", THEN conjunct1, rule_format, OF conjI [OF h1 conjI [OF h2 h3]]]
  have a: "fst (transcribe_and_publish ?H ''done'' (''x.mp3'', ''a.mp3'', ''uploaded'')
          empty_world) = Inr ()"
    using t1 by simp
  have b: "files (snd (transcribe_and_publish ?H ''done''
          (''x.mp3'', ''a.mp3'', ''uploaded'') empty_world)) ''/app/data/metadata.csv'' =
     Some ledger1"
    using t1 by (simp add: METADATA_PATH_demo demo_env_simps ledger1_def)
  have c: "df_cell (new_row ''uploaded'' ''a.mp3'' '' hello'') 0 ''text'' = Str '' hello''"
    using t1 by (simp add: new_row_def)
  have h4: "fst (transcribe_audio ?B ''x.mp3'' empty_world) = None"
    by (simp add: transcribe_audio_def demo_env_simps model_broken_def)
  then have h4': "fst (transcribe_audio ?B ''x.mp3'' empty_world) = None \<or>
      fst (transcribe_audio ?B ''x.mp3'' empty_world) = Some []" by simp
  note t2 = row_written_iff_transcript_nonempty [of ?B "''x.mp3''" empty_world "''uploaded''"
      "''a.mp3''" "''done''", THEN conjunct2, THEN conjunct1, rule_format, OF h4']
  have d: "files (snd (transcribe_and_publish ?B ''done''
          (''x.mp3'', ''a.mp3'', ''uploaded'') empty_world)) = files empty_world"
    using t2 by simp
  have h5: "fst (transcribe_audio ?H ''x.mp3'' ?v) = Some '' hello''"
    by (simp add: transcribe_hello)
  have h6: "metadata_frame ?H ''uploaded'' ''a.mp3'' '' hello'' ?v = Inl ?e"
    by (simp add: metadata_frame_def METADATA_PATH_demo demo_env_simps plain_read_csv_def
        decode_ascii_def)
  note t3 = row_written_iff_transcript_nonempty [of ?H "''x.mp3''" ?v "''uploaded''"
      "''a.mp3''" "''done''", THEN conjunct2, THEN conjunct2, rule_format,
      OF conjI [OF h5 conjI [OF h2 h6]]]
  have e: "fst (transcribe_and_publish ?H ''done'' (''x.mp3'', ''a.mp3'', ''uploaded'') ?v) = Inl ?e"
    using t3 by simp
  show ?thesis by (intro conjI h1 h2 h3 a b c h4 d h6 e)
qed

text \<open>
  The claim as stated fails where the model succeeds with the empty transcript: the
  transcription of the persisted upload returns the empty string, not \<^verbatim>\<open>None\<close>, no error
  is reported, and yet no ledger file is written and nothing is pushed.
\<close>

theorem row_written_iff_transcript_nonempty_counterexample:
  "transcribe_audio (demo_env model_silent)
     ''/app/audio/uploaded/00000000-0000-0000-0000-000000000001.mp3''
     (snd (save_uploaded_file (demo_env model_silent) 1 clip empty_world)) =
     (Some [], snd (save_uploaded_file (demo_env model_silent) 1 clip empty_world)) \<and>
   fst (upload_tab (demo_env model_silent) 1 (Some clip) empty_world) = Inr () \<and>
   files (snd (upload_tab (demo_env model_silent) 1 (Some clip) empty_world))
     ''/app/data/metadata.csv'' = None \<and>
   calls (snd (upload_tab (demo_env model_silent) 1 (Some clip) empty_world)) = [] \<and>
   ui (snd (upload_tab (demo_env model_silent) 1 (Some clip) empty_world)) = [Audio]"
proof -
  let ?D = "demo_env model_silent"
  have a: "transcribe_audio ?D q v = (Some [], v)" for q v
    by (simp add: transcribe_audio_def demo_env_simps model_silent_def)
  have u: "upload_tab ?D 1 (Some clip) empty_world =
     (Inr (), (snd (save_uploaded_file ?D 1 clip empty_world))
        \<lparr>ui := ui (snd (save_uploaded_file ?D 1 clip empty_world)) @ [Audio]\<rparr>)"
    by (simp add: upload_tab_def and_then_def save_clip transcribe_and_publish_def a)
  show ?thesis
    unfolding u by (simp add: a save_clip empty_world_def)
qed

section \<open>The schema and the appended row\<close>

text \<open>
  Claim C4. \<^verbatim>\<open>save_metadata\<close> writes the ledger with \<^verbatim>\<open>to_csv\<close> called with
  \<^verbatim>\<open>index=False\<close>, so without the row index; the appended row is last and its
  \<^verbatim>\<open>audio\<close> cell is \<^verbatim>\<open>audio/{audio_type}/{audio_filename}\<close>, its \<^verbatim>\<open>text\<close> cell the
  transcript; and the frame written has exactly the columns \<^verbatim>\<open>audio\<close> and \<^verbatim>\<open>text\<close>, in
  this order, when there is no ledger file yet or the ledger read has these two columns.
\<close>

theorem append_writes_two_columns:
  "files w (METADATA_PATH env) = None \<or>
   (\<exists>csv df. files w (METADATA_PATH env) = Some csv \<and> read_csv env csv = Inr df \<and>
      columns df = [''audio'', ''text'']) \<Longrightarrow>
   \<exists>df'. metadata_frame env ty fn t w = Inr df' \<and>
         save_metadata env ty fn t w =
           (Inr (), w\<lparr>files := (files w)(METADATA_PATH env \<mapsto> to_csv env False df')\<rparr>) \<and>
         columns df' = [''audio'', ''text''] \<and>
         last (rows df') = [Str (''audio/'' @ ty @ ''/'' @ fn), Str t]"
proof (erule disjE)
  assume "files w (METADATA_PATH env) = None"
  then have m: "metadata_frame env ty fn t w = Inr (new_row ty fn t)"
    by (rule metadata_frame_new)
  have "columns (new_row ty fn t) = [''audio'', ''text'']"
    and "last (rows (new_row ty fn t)) = [Str (''audio/'' @ ty @ ''/'' @ fn), Str t]"
    by (simp_all add: new_row_def)
  with m save_metadata_ok [OF m] show ?thesis by blast
next
  assume "\<exists>csv df. files w (METADATA_PATH env) = Some csv \<and> read_csv env csv = Inr df \<and>
      columns df = [''audio'', ''text'']"
  then obtain csv df where a: "files w (METADATA_PATH env) = Some csv"
    and b: "read_csv env csv = Inr df" and c: "columns df = [''audio'', ''text'']"
    by blast
  have m: "metadata_frame env ty fn t w = Inr (pd_concat df (new_row ty fn t))"
    by (rule metadata_frame_existing [OF a b])
  from m save_metadata_ok [OF m] pd_concat_two_columns [OF c, of ty fn t]
  show ?thesis by blast
qed

theorem append_writes_two_columns_witness:
  "files world_with_ledger (METADATA_PATH (demo_env model_hello)) = Some ledger1 \<and>
   read_csv (demo_env model_hello) ledger1 =
     Inr \<lparr>columns = [''audio'', ''text''],
          rows = [[Str ''audio/uploaded/a.mp3'', Str '' hello'']]\<rparr> \<and>
   metadata_frame (demo_env model_hello) ''recorded'' ''b.wav'' '' bye'' world_with_ledger =
     Inr \<lparr>columns = [''audio'', ''text''],
          rows = [[Str ''audio/uploaded/a.mp3'', Str '' hello''],
                  [Str ''audio/recorded/b.wav'', Str '' bye'']]\<rparr> \<and>
   map_option decode_ascii
     (files (snd (save_metadata (demo_env model_hello) ''recorded'' ''b.wav'' '' bye''
        world_with_ledger)) ''/app/data/metadata.csv'') =
     Some (''audio,text'' @ [CHR 0x0A] @ ''audio/uploaded/a.mp3, hello'' @ [CHR 0x0A] @
           ''audio/recorded/b.wav, bye'' @ [CHR 0x0A])"
proof -
  let ?D = "demo_env model_hello"
  let ?df = "\<lparr>columns = [''audio'', ''text''],
          rows = [[Str ''audio/uploaded/a.mp3'', Str '' hello'']]\<rparr>"
  let ?df2 = "\<lparr>columns = [''audio'', ''text''],
          rows = [[Str ''audio/uploaded/a.mp3'', Str '' hello''],
                  [Str ''audio/recorded/b.wav'', Str '' bye'']]\<rparr>"
  have h1: "files world_with_ledger (METADATA_PATH ?D) = Some ledger1"
    by (simp add: world_with_ledger_def METADATA_PATH_demo)
  have h2: "read_csv ?D ledger1 = Inr ?df"
    by (simp add: demo_env_simps read_ledger1)
  have h: "files world_with_ledger (METADATA_PATH ?D) = None \<or>
     (\<exists>csv df. files world_with_ledger (METADATA_PATH ?D) = Some csv \<and>
        read_csv ?D csv = Inr df \<and> columns df = [''audio'', ''text''])"
    using h1 h2 by simp
  have m: "metadata_frame ?D ''recorded'' ''b.wav'' '' bye'' world_with_ledger = Inr ?df2"
    by (simp add: metadata_frame_existing [OF h1 h2] two_rows)
  from append_writes_two_columns [OF h, of "''recorded''" "''b.wav''" "'' bye''"]
  obtain df' where "metadata_frame ?D ''recorded'' ''b.wav'' '' bye'' world_with_ledger = Inr df'"
    and s: "save_metadata ?D ''recorded'' ''b.wav'' '' bye'' world_with_ledger =
           (Inr (), world_with_ledger\<lparr>files := (files world_with_ledger)
              (METADATA_PATH ?D \<mapsto> to_csv ?D False df')\<rparr>)"
    by blast
  with m have d: "df' = ?df2" by simp
  have "files (snd (save_metadata ?D ''recorded'' ''b.wav'' '' bye'' world_with_ledger))
          ''/app/data/metadata.csv'' = Some (plain_to_csv False ?df2)"
    unfolding s d by (simp add: METADATA_PATH_demo demo_env_simps)
  then have f: "map_option decode_ascii
     (files (snd (save_metadata ?D ''recorded'' ''b.wav'' '' bye'' world_with_ledger))
        ''/app/data/metadata.csv'') =
     Some (''audio,text'' @ [CHR 0x0A] @ ''audio/uploaded/a.mp3, hello'' @ [CHR 0x0A] @
           ''audio/recorded/b.wav, bye'' @ [CHR 0x0A])"
    by (simp only: option.map plain_two_rows)
  show ?thesis by (intro conjI h1 h2 m f)
qed

section \<open>A recording decodes to the samples persisted\<close>

text \<open>
  Claim C5. For every sequence of 16-bit samples given as recording bytes (a \<^verbatim>\<open>bytes\<close>
  object, which holds at most \<^verbatim>\<open>sys.maxsize\<close> = 9223372036854775807 bytes), persisting the
  samples' little-endian bytes as a recording returns a filename with extension \<^verbatim>\<open>.wav\<close>
  under the \<^verbatim>\<open>recorded\<close> directory, and decoding the file at the returned path gives the
  sample rate 44100 and the same samples. This holds on both sides of the 32-bit size limit
  of the RIFF container: below it the file is a RIFF file, above it an RF64 file.
\<close>

theorem recording_roundtrip:
  assumes "length (tobytes xs) \<le> 9223372036854775807"
  shows "\<exists>save_path filename w' wav.
           save_recorded_audio env u (tobytes xs) w = (Inr (save_path, filename, ''recorded''), w') \<and>
           filename = str_uuid u @ ''.wav'' \<and>
           save_path = path_join (RECORDED_DIR env) filename \<and>
           files w' save_path = Some wav \<and>
           wavfile_read wav = Inr (44100, xs)"
proof -
  let ?fn = "str_uuid u @ ''.wav''"
  let ?p = "path_join (RECORDED_DIR env) ?fn"
  from assms have n: "2 * length xs \<le> 9223372036854775807"
    by (simp only: length_tobytes)
  show ?thesis
  proof (cases "36 + 2 * length xs \<le> 4294967295")
    case True
    let ?wav = "encode_ascii ''RIFF'' @ le32 (36 + 2 * length xs) @ encode_ascii ''WAVE'' @
        encode_ascii ''fmt '' @ le32 16 @ fmt_chunk_data 44100 @
        encode_ascii ''data'' @ le32 (2 * length xs) @ tobytes xs"
    let ?w' = "w\<lparr>files := (files w)(?p \<mapsto> ?wav)\<rparr>"
    have 1: "save_recorded_audio env u (tobytes xs) w = (Inr (?p, ?fn, ''recorded''), ?w')"
      by (rule save_recorded_audio_ok [OF True])
    have 2: "files ?w' ?p = Some ?wav" by simp
    have 3: "wavfile_read ?wav = Inr (44100, xs)"
      by (rule wavfile_roundtrip [OF True]) simp
    show ?thesis
      by (rule exI [of _ ?p], rule exI [of _ ?fn], rule exI [of _ ?w'], rule exI [of _ ?wav])
        (intro conjI 1 2 3 refl)
  next
    case False
    then have big: "4294967295 < 36 + 2 * length xs" by simp
    let ?wav = "encode_ascii ''RF64'' @ [0xFF, 0xFF, 0xFF, 0xFF] @ encode_ascii ''WAVE'' @
        encode_ascii ''ds64'' @ le32 28 @ le64 (72 + 2 * length xs) @ le64 (2 * length xs) @
        le64 (length xs) @ le32 0 @
        encode_ascii ''fmt '' @ le32 16 @ fmt_chunk_data 44100 @
        encode_ascii ''data'' @ le32 (min (2 * length xs) 4294967295) @ tobytes xs"
    let ?w' = "w\<lparr>files := (files w)(?p \<mapsto> ?wav)\<rparr>"
    have 1: "save_recorded_audio env u (tobytes xs) w = (Inr (?p, ?fn, ''recorded''), ?w')"
      by (rule save_recorded_audio_rf64 [OF big])
    have 2: "files ?w' ?p = Some ?wav" by simp
    have 3: "wavfile_read ?wav = Inr (44100, xs)"
      by (rule wavfile_roundtrip_rf64 [OF n]) simp
    show ?thesis
      by (rule exI [of _ ?p], rule exI [of _ ?fn], rule exI [of _ ?w'], rule exI [of _ ?wav])
        (intro conjI 1 2 3 refl)
  qed
qed

text \<open>
  The theorem at the five samples of the specification, and at a recording of 2147483648
  samples (4 GiB), which is beyond the limit of the RIFF container.
\<close>

theorem recording_roundtrip_witness:
  "length (tobytes [0, 1000, - 1000, 32767, - 32768]) \<le> 9223372036854775807 \<and>
   map sint [0, 1000, - 1000, 32767, - 32768 :: 16 word] = [0, 1000, - 1000, 32767, - 32768] \<and>
   (\<exists>w' wav.
      save_recorded_audio (demo_env model_hello) 1
          (tobytes [0, 1000, - 1000, 32767, - 32768]) empty_world =
        (Inr (''/app/audio/recorded/00000000-0000-0000-0000-000000000001.wav'',
              ''00000000-0000-0000-0000-000000000001.wav'', ''recorded''), w') \<and>
      files w' ''/app/audio/recorded/00000000-0000-0000-0000-000000000001.wav'' = Some wav \<and>
      wavfile_read wav = Inr (44100, [0, 1000, - 1000, 32767, - 32768])) \<and>
   length (tobytes (replicate 2147483648 0)) \<le> 9223372036854775807 \<and>
   (\<exists>w' wav.
      save_recorded_audio (demo_env model_hello) 1
          (tobytes (replicate 2147483648 0)) empty_world =
        (Inr (''/app/audio/recorded/00000000-0000-0000-0000-000000000001.wav'',
              ''00000000-0000-0000-0000-000000000001.wav'', ''recorded''), w') \<and>
      files w' ''/app/audio/recorded/00000000-0000-0000-0000-000000000001.wav'' = Some wav \<and>
      wavfile_read wav = Inr (44100, replicate 2147483648 0))"
proof -
  let ?D = "demo_env model_hello"
  let ?P = "''/app/audio/recorded/00000000-0000-0000-0000-000000000001.wav''"
  let ?F = "''00000000-0000-0000-0000-000000000001.wav''"
  have h: "length (tobytes [0, 1000, - 1000, 32767, - 32768]) \<le> 9223372036854775807"
    by (simp add: length_tobytes)
  have s: "map sint [0, 1000, - 1000, 32767, - 32768 :: 16 word] =
           [0, 1000, - 1000, 32767, - 32768]"
    by simp
  have g: "length (tobytes (replicate 2147483648 0)) \<le> 9223372036854775807"
    by (simp only: length_tobytes length_replicate)
  have m: "str_uuid 1 @ ''.wav'' = ?F"
    by (simp add: str_uuid_1)
  have p: "path_join (RECORDED_DIR ?D) ?F = ?P"
    by (simp add: RECORDED_DIR_demo path_join_def)
  have small: "\<exists>w' wav.
      save_recorded_audio ?D 1 (tobytes [0, 1000, - 1000, 32767, - 32768]) empty_world =
        (Inr (?P, ?F, ''recorded''), w') \<and>
      files w' ?P = Some wav \<and>
      wavfile_read wav = Inr (44100, [0, 1000, - 1000, 32767, - 32768])"
  proof -
    from recording_roundtrip [OF h, of ?D 1 empty_world]
    obtain sp fn w' wav where
      a: "save_recorded_audio ?D 1 (tobytes [0, 1000, - 1000, 32767, - 32768]) empty_world =
          (Inr (sp, fn, ''recorded''), w')"
      and fn: "fn = str_uuid 1 @ ''.wav''"
      and sp: "sp = path_join (RECORDED_DIR ?D) fn"
      and b: "files w' sp = Some wav"
      and c: "wavfile_read wav = Inr (44100, [0, 1000, - 1000, 32767, - 32768])"
      by (elim exE conjE) (rule that; assumption)
    have fn': "fn = ?F" by (simp only: fn m)
    have sp': "sp = ?P" by (simp only: sp fn' p)
    show ?thesis
      by (rule exI [of _ w'], rule exI [of _ wav])
        (intro conjI a [unfolded fn' sp'] b [unfolded sp'] c)
  qed
  have large: "\<exists>w' wav.
      save_recorded_audio ?D 1 (tobytes (replicate 2147483648 0)) empty_world =
        (Inr (?P, ?F, ''recorded''), w') \<and>
      files w' ?P = Some wav \<and>
      wavfile_read wav = Inr (44100, replicate 2147483648 0)"
  proof -
    from recording_roundtrip [OF g, of ?D 1 empty_world]
    obtain sp fn w' wav where
      a: "save_recorded_audio ?D 1 (tobytes (replicate 2147483648 0)) empty_world =
          (Inr (sp, fn, ''recorded''), w')"
      and fn: "fn = str_uuid 1 @ ''.wav''"
      and sp: "sp = path_join (RECORDED_DIR ?D) fn"
      and b: "files w' sp = Some wav"
      and c: "wavfile_read wav = Inr (44100, replicate 2147483648 0)"
      by (elim exE conjE) (rule that; assumption)
    have fn': "fn = ?F" by (simp only: fn m)
    have sp': "sp = ?P" by (simp only: sp fn' p)
    show ?thesis
      by (rule exI [of _ w'], rule exI [of _ wav])
        (intro conjI a [unfolded fn' sp'] b [unfolded sp'] c)
  qed
  show ?thesis by (intro conjI h s small g large)
qed

section \<open>An upload keeps its extension and its bytes\<close>

text \<open>
  Claim C6. For an upload named \<open>stem.ext\<close> (the extension being what follows the last
  dot), \<^verbatim>\<open>save_uploaded_file\<close> returns a filename that is the identifier, a dot and the
  extension in lower case (no capital letter is left in it), under the \<^verbatim>\<open>uploaded\<close>
  directory, and the file at the returned path holds exactly the uploaded bytes.
\<close>

theorem uploaded_extension_fidelity:
  assumes "CHR ''.'' \<notin> set ext"
  shows "\<exists>save_path filename w'.
           save_uploaded_file env u \<lparr>name = stem @ ''.'' @ ext, content = bs\<rparr> w =
             (Inr (save_path, filename, ''uploaded''), w') \<and>
           filename = str_uuid u @ ''.'' @ lower ext \<and>
           set (lower ext) \<inter> set ''ABCDEFGHIJKLMNOPQRSTUVWXYZ'' = {} \<and>
           save_path = path_join (UPLOADED_DIR env) filename \<and>
           files w' save_path = Some bs"
proof -
  let ?fn = "str_uuid u @ ''.'' @ lower ext"
  let ?p = "path_join (UPLOADED_DIR env) ?fn"
  let ?w' = "w\<lparr>files := (files w)(?p \<mapsto> bs)\<rparr>"
  have 1: "save_uploaded_file env u \<lparr>name = stem @ ''.'' @ ext, content = bs\<rparr> w =
             (Inr (?p, ?fn, ''uploaded''), ?w')"
    by (rule save_uploaded_file_eq [OF assms])
  have 2: "files ?w' ?p = Some bs" by simp
  have 3: "set (lower ext) \<inter> set ''ABCDEFGHIJKLMNOPQRSTUVWXYZ'' = {}"
    by (rule lower_no_upper)
  show ?thesis using 1 2 3 by blast
qed

theorem uploaded_extension_fidelity_witness:
  "CHR ''.'' \<notin> set ''MP3'' \<and>
   (\<exists>w'. save_uploaded_file (demo_env model_hello) 0x123e4567e89b12d3a456426614174000
            \<lparr>name = ''clip.MP3'', content = [73, 68, 51, 4]\<rparr> empty_world =
           (Inr (''/app/audio/uploaded/123e4567-e89b-12d3-a456-426614174000.mp3'',
                 ''123e4567-e89b-12d3-a456-426614174000.mp3'', ''uploaded''), w') \<and>
         files w' ''/app/audio/uploaded/123e4567-e89b-12d3-a456-426614174000.mp3'' =
           Some [73, 68, 51, 4])"
proof -
  have h: "CHR ''.'' \<notin> set ''MP3''" by simp
  have p: "path_join ''/app/audio/uploaded'' ''123e4567-e89b-12d3-a456-426614174000.mp3'' =
           ''/app/audio/uploaded/123e4567-e89b-12d3-a456-426614174000.mp3''"
    by (simp add: path_join_def)
  show ?thesis
    using h uploaded_extension_fidelity [OF h, of "demo_env model_hello"
        "0x123e4567e89b12d3a456426614174000" "''clip''" "[73, 68, 51, 4]" empty_world]
    by (simp add: lower_MP3 str_uuid_demo UPLOADED_DIR_demo p)
qed

section \<open>Publishing, once after each append\<close>

text \<open>
  Claim C7. \<^verbatim>\<open>push_to_huggingface\<close>, run where the ledger file exists, makes three calls
  in this order: \<^verbatim>\<open>create_repo\<close> for the configured id with type dataset and
  \<^verbatim>\<open>exist_ok=True\<close>, \<^verbatim>\<open>upload_folder\<close> of the local audio folder, and \<^verbatim>\<open>upload_file\<close> of
  the ledger to \<^verbatim>\<open>metadata.csv\<close>. It ends normally and leaves the local files and every
  other repository alone; the dataset repository exists afterwards, holds the ledger at
  \<^verbatim>\<open>metadata.csv\<close> and every local file under the audio folder at its relative path, and
  elsewhere what it held before (nothing, if it was created). In the steps after
  persisting, the three calls are made once, after the ledger file is written, when the
  transcript is not empty and the row was appended; no call is made and no repository is
  changed when \<^verbatim>\<open>transcribe_audio\<close> returns \<^verbatim>\<open>None\<close> or the empty string, and no call is
  made when the append raises.
\<close>

theorem publish_once_after_append:
  "(\<forall>csv. files w (METADATA_PATH env) = Some csv \<longrightarrow>
      (\<exists>w'. push_to_huggingface env w = (Inr (), w') \<and>
            calls w' = calls w @
              [CreateRepo (hf_repo_id env) Dataset True (hf_token env),
               UploadFolder (path_join (base_dir env) ''audio'') (hf_repo_id env) Dataset
                 (hf_token env),
               UploadFile (METADATA_PATH env) ''metadata.csv'' (hf_repo_id env) Dataset
                 (hf_token env)] \<and>
            files w' = files w \<and>
            (\<forall>k. k \<noteq> (Dataset, hf_repo_id env) \<longrightarrow> hub w' k = hub w k) \<and>
            (\<exists>repo. hub w' (Dataset, hf_repo_id env) = Some repo \<and>
               repo ''metadata.csv'' = Some csv \<and>
               (\<forall>q b. q \<noteq> [] \<and> q \<noteq> ''metadata.csv'' \<and>
                      files w (path_join (base_dir env) ''audio'' @ ''/'' @ q) = Some b \<longrightarrow>
                      repo q = Some b) \<and>
               (\<forall>q. q \<noteq> ''metadata.csv'' \<and>
                    (q = [] \<or> files w (path_join (base_dir env) ''audio'' @ ''/'' @ q) = None) \<longrightarrow>
                    repo q = (case hub w (Dataset, hf_repo_id env) of
                                None \<Rightarrow> None | Some r \<Rightarrow> r q))))) \<and>
   (\<forall>t df. fst (transcribe_audio env p w) = Some t \<and> t \<noteq> [] \<and>
           metadata_frame env ty fn t w = Inr df \<longrightarrow>
      (\<exists>w'. transcribe_and_publish env msg (p, fn, ty) w = (Inr (), w') \<and>
            calls w' = calls w @
              [CreateRepo (hf_repo_id env) Dataset True (hf_token env),
               UploadFolder (path_join (base_dir env) ''audio'') (hf_repo_id env) Dataset
                 (hf_token env),
               UploadFile (METADATA_PATH env) ''metadata.csv'' (hf_repo_id env) Dataset
                 (hf_token env)] \<and>
            files w' (METADATA_PATH env) = Some (to_csv env False df) \<and>
            (\<exists>repo. hub w' (Dataset, hf_repo_id env) = Some repo \<and>
               repo ''metadata.csv'' = Some (to_csv env False df)))) \<and>
   (fst (transcribe_audio env p w) = None \<or> fst (transcribe_audio env p w) = Some [] \<longrightarrow>
      calls (snd (transcribe_and_publish env msg (p, fn, ty) w)) = calls w \<and>
      hub (snd (transcribe_and_publish env msg (p, fn, ty) w)) = hub w) \<and>
   (\<forall>t e. fst (transcribe_audio env p w) = Some t \<and> t \<noteq> [] \<and>
          metadata_frame env ty fn t w = Inl e \<longrightarrow>
      calls (snd (transcribe_and_publish env msg (p, fn, ty) w)) = calls w \<and>
      hub (snd (transcribe_and_publish env msg (p, fn, ty) w)) = hub w)"
proof (intro conjI allI impI)
  fix csv
  assume a: "files w (METADATA_PATH env) = Some csv"
  let ?w' = "w\<lparr>hub := (hub w)((Dataset, hf_repo_id env) \<mapsto> published env w csv),
               calls := calls w @ publish_calls env\<rparr>"
  have 1: "push_to_huggingface env w = (Inr (), ?w')"
    by (rule push_to_huggingface_ok [OF a])
  have 2: "calls ?w' = calls w @
              [CreateRepo (hf_repo_id env) Dataset True (hf_token env),
               UploadFolder (path_join (base_dir env) ''audio'') (hf_repo_id env) Dataset
                 (hf_token env),
               UploadFile (METADATA_PATH env) ''metadata.csv'' (hf_repo_id env) Dataset
                 (hf_token env)]"
    by (simp add: publish_calls_def)
  have 3: "files ?w' = files w" by simp
  have 4: "\<forall>k. k \<noteq> (Dataset, hf_repo_id env) \<longrightarrow> hub ?w' k = hub w k" by simp
  have 5: "hub ?w' (Dataset, hf_repo_id env) = Some (published env w csv)" by simp
  have 6: "published env w csv ''metadata.csv'' = Some csv"
    by (simp add: published_def)
  have 7: "\<forall>q b. q \<noteq> [] \<and> q \<noteq> ''metadata.csv'' \<and>
                      files w (path_join (base_dir env) ''audio'' @ ''/'' @ q) = Some b \<longrightarrow>
                      published env w csv q = Some b"
    by (simp add: published_def)
  have 8: "\<forall>q. q \<noteq> ''metadata.csv'' \<and>
                    (q = [] \<or> files w (path_join (base_dir env) ''audio'' @ ''/'' @ q) = None) \<longrightarrow>
                    published env w csv q = (case hub w (Dataset, hf_repo_id env) of
                                None \<Rightarrow> None | Some r \<Rightarrow> r q)"
    by (auto simp add: published_def)
  show "\<exists>w'. push_to_huggingface env w = (Inr (), w') \<and>
            calls w' = calls w @
              [CreateRepo (hf_repo_id env) Dataset True (hf_token env),
               UploadFolder (path_join (base_dir env) ''audio'') (hf_repo_id env) Dataset
                 (hf_token env),
               UploadFile (METADATA_PATH env) ''metadata.csv'' (hf_repo_id env) Dataset
                 (hf_token env)] \<and>
            files w' = files w \<and>
            (\<forall>k. k \<noteq> (Dataset, hf_repo_id env) \<longrightarrow> hub w' k = hub w k) \<and>
            (\<exists>repo. hub w' (Dataset, hf_repo_id env) = Some repo \<and>
               repo ''metadata.csv'' = Some csv \<and>
               (\<forall>q b. q \<noteq> [] \<and> q \<noteq> ''metadata.csv'' \<and>
                      files w (path_join (base_dir env) ''audio'' @ ''/'' @ q) = Some b \<longrightarrow>
                      repo q = Some b) \<and>
               (\<forall>q. q \<noteq> ''metadata.csv'' \<and>
                    (q = [] \<or> files w (path_join (base_dir env) ''audio'' @ ''/'' @ q) = None) \<longrightarrow>
                    repo q = (case hub w (Dataset, hf_repo_id env) of
                                None \<Rightarrow> None | Some r \<Rightarrow> r q)))"
    using 1 2 3 4 5 6 7 8 by blast
next
  fix t df
  assume a: "fst (transcribe_audio env p w) = Some t \<and> t \<noteq> [] \<and>
           metadata_frame env ty fn t w = Inr df"
  then have a1: "fst (transcribe_audio env p w) = Some t" and a2: "t \<noteq> []"
    and a3: "metadata_frame env ty fn t w = Inr df" by simp_all
  let ?v = "w\<lparr>files := (files w)(METADATA_PATH env \<mapsto> to_csv env False df)\<rparr>"
  let ?w' = "w\<lparr>files := (files w)(METADATA_PATH env \<mapsto> to_csv env False df),
        hub := (hub w)((Dataset, hf_repo_id env) \<mapsto> published env ?v (to_csv env False df)),
        calls := calls w @ publish_calls env,
        ui := ui w @ [Markdown ''### Transcription'', Written t, Success msg]\<rparr>"
  have 1: "transcribe_and_publish env msg (p, fn, ty) w = (Inr (), ?w')"
    by (rule transcribe_and_publish_ok [OF a1 a2 a3])
  have 2: "calls ?w' = calls w @
              [CreateRepo (hf_repo_id env) Dataset True (hf_token env),
               UploadFolder (path_join (base_dir env) ''audio'') (hf_repo_id env) Dataset
                 (hf_token env),
               UploadFile (METADATA_PATH env) ''metadata.csv'' (hf_repo_id env) Dataset
                 (hf_token env)]"
    by (simp add: publish_calls_def)
  have 3: "files ?w' (METADATA_PATH env) = Some (to_csv env False df)" by simp
  have 4: "hub ?w' (Dataset, hf_repo_id env) = Some (published env ?v (to_csv env False df))"
    by simp
  have 5: "published env ?v (to_csv env False df) ''metadata.csv'' = Some (to_csv env False df)"
    by (simp add: published_def)
  show "\<exists>w'. transcribe_and_publish env msg (p, fn, ty) w = (Inr (), w') \<and>
            calls w' = calls w @
              [CreateRepo (hf_repo_id env) Dataset True (hf_token env),
               UploadFolder (path_join (base_dir env) ''audio'') (hf_repo_id env) Dataset
                 (hf_token env),
               UploadFile (METADATA_PATH env) ''metadata.csv'' (hf_repo_id env) Dataset
                 (hf_token env)] \<and>
            files w' (METADATA_PATH env) = Some (to_csv env False df) \<and>
            (\<exists>repo. hub w' (Dataset, hf_repo_id env) = Some repo \<and>
               repo ''metadata.csv'' = Some (to_csv env False df))"
    using 1 2 3 4 5 by blast
next
  assume a: "fst (transcribe_audio env p w) = None \<or> fst (transcribe_audio env p w) = Some []"
  note r = transcribe_and_publish_skip [OF a, of msg fn ty]
  note c = transcribe_audio_cases [of env p w "fst (transcribe_audio env p w)"
        "snd (transcribe_audio env p w)"]
  show "calls (snd (transcribe_and_publish env msg (p, fn, ty) w)) = calls w"
    unfolding r using c by simp
  show "hub (snd (transcribe_and_publish env msg (p, fn, ty) w)) = hub w"
    unfolding r using c by simp
next
  fix t e
  assume a: "fst (transcribe_audio env p w) = Some t \<and> t \<noteq> [] \<and>
          metadata_frame env ty fn t w = Inl e"
  then have a1: "fst (transcribe_audio env p w) = Some t" and a2: "t \<noteq> []"
    and a3: "metadata_frame env ty fn t w = Inl e" by simp_all
  note r = transcribe_and_publish_unreadable [OF a1 a2 a3, of msg]
  show "calls (snd (transcribe_and_publish env msg (p, fn, ty) w)) = calls w"
    unfolding r by simp
  show "hub (snd (transcribe_and_publish env msg (p, fn, ty) w)) = hub w"
    unfolding r by simp
qed

theorem publish_once_after_append_witness:
  "files (world_with_ledger\<lparr>files := (files world_with_ledger)
            (''/app/audio/uploaded/a.mp3'' \<mapsto> [73, 68])\<rparr>)
     (METADATA_PATH (demo_env model_hello)) = Some ledger1 \<and>
   (\<exists>w' repo.
      push_to_huggingface (demo_env model_hello)
        (world_with_ledger\<lparr>files := (files world_with_ledger)
            (''/app/audio/uploaded/a.mp3'' \<mapsto> [73, 68])\<rparr>) = (Inr (), w') \<and>
      calls w' =
        [CreateRepo ''user/voices'' Dataset True ''hf_token'',
         UploadFolder ''/app/audio'' ''user/voices'' Dataset ''hf_token'',
         UploadFile ''/app/data/metadata.csv'' ''metadata.csv'' ''user/voices'' Dataset
           ''hf_token''] \<and>
      hub w' (Dataset, ''user/voices'') = Some repo \<and>
      repo ''metadata.csv'' = Some ledger1 \<and>
      repo ''uploaded/a.mp3'' = Some [73, 68] \<and>
      repo ''uploaded/b.mp3'' = None) \<and>
   fst (transcribe_audio (demo_env model_hello) ''x.mp3'' empty_world) = Some '' hello'' \<and>
   metadata_frame (demo_env model_hello) ''uploaded'' ''a.mp3'' '' hello'' empty_world =
     Inr (new_row ''uploaded'' ''a.mp3'' '' hello'') \<and>
   (\<exists>w' repo.
      transcribe_and_publish (demo_env model_hello) ''done'' (''x.mp3'', ''a.mp3'', ''uploaded'')
        empty_world = (Inr (), w') \<and>
      calls w' =
        [CreateRepo ''user/voices'' Dataset True ''hf_token'',
         UploadFolder ''/app/audio'' ''user/voices'' Dataset ''hf_token'',
         UploadFile ''/app/data/metadata.csv'' ''metadata.csv'' ''user/voices'' Dataset
           ''hf_token''] \<and>
      files w' ''/app/data/metadata.csv'' = Some ledger1 \<and>
      hub w' (Dataset, ''user/voices'') = Some repo \<and>
      repo ''metadata.csv'' = Some ledger1) \<and>
   fst (transcribe_audio (demo_env model_broken) ''x.mp3'' empty_world) = None \<and>
   calls (snd (transcribe_and_publish (demo_env model_broken) ''done''
      (''x.mp3'', ''a.mp3'', ''uploaded'') empty_world)) = [] \<and>
   metadata_frame (demo_env model_hello) ''uploaded'' ''a.mp3'' '' hello''
     (empty_world\<lparr>files := (files empty_world)(''/app/data/metadata.csv'' \<mapsto> [])\<rparr>) =
     Inl (Exn ParserError ''No columns to parse from file'') \<and>
   calls (snd (transcribe_and_publish (demo_env model_hello) ''done''
      (''x.mp3'', ''a.mp3'', ''uploaded'')
      (empty_world\<lparr>files := (files empty_world)(''/app/data/metadata.csv'' \<mapsto> [])\<rparr>))) = []"
proof -
  let ?H = "demo_env model_hello" and ?B = "demo_env model_broken"
  let ?W = "world_with_ledger\<lparr>files := (files world_with_ledger)
            (''/app/audio/uploaded/a.mp3'' \<mapsto> [73, 68])\<rparr>"
  let ?v = "empty_world\<lparr>files := (files empty_world)(''/app/data/metadata.csv'' \<mapsto> [])\<rparr>"
  let ?e = "Exn ParserError ''No columns to parse from file''"
  let ?cs = "[CreateRepo ''user/voices'' Dataset True ''hf_token'',
         UploadFolder ''/app/audio'' ''user/voices'' Dataset ''hf_token'',
         UploadFile ''/app/data/metadata.csv'' ''metadata.csv'' ''user/voices'' Dataset
           ''hf_token'']"
  have au: "path_join ''/app'' ''audio'' = ''/app/audio''" by (simp add: path_join_def)
  have g1: "files ?W (METADATA_PATH ?H) = Some ledger1"
    by (simp add: world_with_ledger_def METADATA_PATH_demo)
  from publish_once_after_append [of ?W ?H, THEN conjunct1, rule_format, OF g1]
  obtain w' repo where
    p1: "push_to_huggingface ?H ?W = (Inr (), w')"
    and p2: "calls w' = calls ?W @
              [CreateRepo (hf_repo_id ?H) Dataset True (hf_token ?H),
               UploadFolder (path_join (base_dir ?H) ''audio'') (hf_repo_id ?H) Dataset
                 (hf_token ?H),
               UploadFile (METADATA_PATH ?H) ''metadata.csv'' (hf_repo_id ?H) Dataset
                 (hf_token ?H)]"
    and p3: "hub w' (Dataset, hf_repo_id ?H) = Some repo"
    and p4: "repo ''metadata.csv'' = Some ledger1"
    and p5: "\<forall>q b. q \<noteq> [] \<and> q \<noteq> ''metadata.csv'' \<and>
                files ?W (path_join (base_dir ?H) ''audio'' @ ''/'' @ q) = Some b \<longrightarrow>
                repo q = Some b"
    and p6: "\<forall>q. q \<noteq> ''metadata.csv'' \<and>
                (q = [] \<or> files ?W (path_join (base_dir ?H) ''audio'' @ ''/'' @ q) = None) \<longrightarrow>
                repo q = (case hub ?W (Dataset, hf_repo_id ?H) of
                            None \<Rightarrow> None | Some r \<Rightarrow> r q)"
    by (elim exE conjE) (rule that; assumption)
  have q2: "calls w' = ?cs"
    using p2 by (simp add: demo_env_simps METADATA_PATH_demo au world_with_ledger_def
        empty_world_def)
  have q3: "hub w' (Dataset, ''user/voices'') = Some repo"
    using p3 by (simp add: demo_env_simps)
  have q5: "repo ''uploaded/a.mp3'' = Some [73, 68]"
    using p5 [rule_format, of "''uploaded/a.mp3''" "[73, 68]"]
    by (simp add: demo_env_simps au world_with_ledger_def)
  have q6: "repo ''uploaded/b.mp3'' = None"
    using p6 [rule_format, of "''uploaded/b.mp3''"]
    by (simp add: demo_env_simps au world_with_ledger_def empty_world_def)
  have A: "\<exists>w' repo.
      push_to_huggingface ?H ?W = (Inr (), w') \<and> calls w' = ?cs \<and>
      hub w' (Dataset, ''user/voices'') = Some repo \<and>
      repo ''metadata.csv'' = Some ledger1 \<and>
      repo ''uploaded/a.mp3'' = Some [73, 68] \<and>
      repo ''uploaded/b.mp3'' = None"
    by (rule exI [of _ w'], rule exI [of _ repo]) (intro conjI p1 q2 q3 p4 q5 q6)
  have h1: "fst (transcribe_audio ?H ''x.mp3'' empty_world) = Some '' hello''"
    by (simp add: transcribe_hello)
  have h2: "'' hello'' \<noteq> []" by simp
  note h3 = first_frame [of model_hello]
  from publish_once_after_append [of empty_world ?H "''x.mp3''" "''uploaded''" "''a.mp3''"
      "''done''", THEN conjunct2, THEN conjunct1, rule_format, OF conjI [OF h1 conjI [OF h2 h3]]]
  obtain v' repo' where
    t1: "transcribe_and_publish ?H ''done'' (''x.mp3'', ''a.mp3'', ''uploaded'') empty_world =
          (Inr (), v')"
    and t2: "calls v' = calls empty_world @
              [CreateRepo (hf_repo_id ?H) Dataset True (hf_token ?H),
               UploadFolder (path_join (base_dir ?H) ''audio'') (hf_repo_id ?H) Dataset
                 (hf_token ?H),
               UploadFile (METADATA_PATH ?H) ''metadata.csv'' (hf_repo_id ?H) Dataset
                 (hf_token ?H)]"
    and t3: "files v' (METADATA_PATH ?H) =
               Some (to_csv ?H False (new_row ''uploaded'' ''a.mp3'' '' hello''))"
    and t4: "hub v' (Dataset, hf_repo_id ?H) = Some repo'"
    and t5: "repo' ''metadata.csv'' =
               Some (to_csv ?H False (new_row ''uploaded'' ''a.mp3'' '' hello''))"
    by (elim exE conjE) (rule that; assumption)
  have B: "\<exists>w' repo.
      transcribe_and_publish ?H ''done'' (''x.mp3'', ''a.mp3'', ''uploaded'') empty_world =
        (Inr (), w') \<and>
      calls w' = ?cs \<and>
      files w' ''/app/data/metadata.csv'' = Some ledger1 \<and>
      hub w' (Dataset, ''user/voices'') = Some repo \<and>
      repo ''metadata.csv'' = Some ledger1"
  proof (rule exI [of _ v'], rule exI [of _ repo'], intro conjI)
    show "transcribe_and_publish ?H ''done'' (''x.mp3'', ''a.mp3'', ''uploaded'') empty_world =
        (Inr (), v')" by (rule t1)
    show "calls v' = ?cs"
      using t2 by (simp add: demo_env_simps METADATA_PATH_demo au empty_world_def)
    show "files v' ''/app/data/metadata.csv'' = Some ledger1"
      using t3 by (simp add: demo_env_simps METADATA_PATH_demo ledger1_def)
    show "hub v' (Dataset, ''user/voices'') = Some repo'"
      using t4 by (simp add: demo_env_simps)
    show "repo' ''metadata.csv'' = Some ledger1"
      using t5 by (simp add: demo_env_simps ledger1_def)
  qed
  have h4: "fst (transcribe_audio ?B ''x.mp3'' empty_world) = None"
    by (simp add: transcribe_audio_def demo_env_simps model_broken_def)
  then have h4': "fst (transcribe_audio ?B ''x.mp3'' empty_world) = None \<or>
      fst (transcribe_audio ?B ''x.mp3'' empty_world) = Some []" by simp
  from publish_once_after_append [of empty_world ?B "''x.mp3''" "''uploaded''" "''a.mp3''"
      "''done''", THEN conjunct2, THEN conjunct2, THEN conjunct1, rule_format, OF h4']
  have C: "calls (snd (transcribe_and_publish ?B ''done''
      (''x.mp3'', ''a.mp3'', ''uploaded'') empty_world)) = []"
    by (simp add: empty_world_def)
  have h5: "fst (transcribe_audio ?H ''x.mp3'' ?v) = Some '' hello''"
    by (simp add: transcribe_hello)
  have h6: "metadata_frame ?H ''uploaded'' ''a.mp3'' '' hello'' ?v = Inl ?e"
    by (simp add: metadata_frame_def METADATA_PATH_demo demo_env_simps plain_read_csv_def
        decode_ascii_def)
  from publish_once_after_append [of ?v ?H "''x.mp3''" "''uploaded''" "''a.mp3''"
      "''done''", THEN conjunct2, THEN conjunct2, THEN conjunct2, rule_format,
      OF conjI [OF h5 conjI [OF h2 h6]]]
  have D: "calls (snd (transcribe_and_publish ?H ''done''
      (''x.mp3'', ''a.mp3'', ''uploaded'') ?v)) = []"
    by (simp add: empty_world_def)
  show ?thesis by (intro conjI g1 A h1 h3 B h4 C h6 D)
qed

section \<open>Different identifiers, different paths\<close>

text \<open>
  Claim C8. Two persist operations of the same source type whose generated identifiers
  differ return different storage paths: for two uploads (whatever their names and bytes)
  and for two recordings.
\<close>

theorem distinct_ids_distinct_paths:
  assumes "u1 \<noteq> u2"
  shows "(\<forall>p1 n1 t1 v1 p2 n2 t2 v2.
            save_uploaded_file env u1 f1 w1 = (Inr (p1, n1, t1), v1) \<and>
            save_uploaded_file env u2 f2 w2 = (Inr (p2, n2, t2), v2) \<longrightarrow> p1 \<noteq> p2) \<and>
         (\<forall>p1 n1 t1 v1 p2 n2 t2 v2.
            save_recorded_audio env u1 a1 w1 = (Inr (p1, n1, t1), v1) \<and>
            save_recorded_audio env u2 a2 w2 = (Inr (p2, n2, t2), v2) \<longrightarrow> p1 \<noteq> p2)"
proof (intro conjI allI impI)
  fix p1 n1 t1 v1 p2 n2 t2 v2
  assume "save_uploaded_file env u1 f1 w1 = (Inr (p1, n1, t1), v1) \<and>
          save_uploaded_file env u2 f2 w2 = (Inr (p2, n2, t2), v2)"
  then have "p1 = path_join (UPLOADED_DIR env)
                    (str_uuid u1 @ ''.'' @ lower (last (split_on (CHR ''.'') (name f1))))"
    and "p2 = path_join (UPLOADED_DIR env)
                    (str_uuid u2 @ ''.'' @ lower (last (split_on (CHR ''.'') (name f2))))"
    by (auto simp add: save_uploaded_file_def Let_def)
  then show "p1 \<noteq> p2"
    using assms path_join_uuid_inj by blast
next
  fix p1 n1 t1 v1 p2 n2 t2 v2
  assume "save_recorded_audio env u1 a1 w1 = (Inr (p1, n1, t1), v1) \<and>
          save_recorded_audio env u2 a2 w2 = (Inr (p2, n2, t2), v2)"
  then have "p1 = path_join (RECORDED_DIR env) (str_uuid u1 @ ''.wav'')"
    and "p2 = path_join (RECORDED_DIR env) (str_uuid u2 @ ''.wav'')"
    by (auto simp add: save_recorded_audio_def Let_def and_then_def
        split: sum.splits prod.splits)
  then show "p1 \<noteq> p2"
    using assms path_join_uuid_inj by blast
qed

theorem distinct_ids_distinct_paths_witness:
  "(1 :: uuid) \<noteq> 2 \<and>
   fst (save_uploaded_file (demo_env model_hello) 1 clip empty_world) =
     Inr (''/app/audio/uploaded/00000000-0000-0000-0000-000000000001.mp3'',
          ''00000000-0000-0000-0000-000000000001.mp3'', ''uploaded'') \<and>
   fst (save_uploaded_file (demo_env model_hello) 2 clip empty_world) =
     Inr (''/app/audio/uploaded/00000000-0000-0000-0000-000000000002.mp3'',
          ''00000000-0000-0000-0000-000000000002.mp3'', ''uploaded'') \<and>
   ''/app/audio/uploaded/00000000-0000-0000-0000-000000000001.mp3'' \<noteq>
   ''/app/audio/uploaded/00000000-0000-0000-0000-000000000002.mp3'' \<and>
   fst (save_recorded_audio (demo_env model_hello) 1 (tobytes [0, 1000]) empty_world) =
     Inr (''/app/audio/recorded/00000000-0000-0000-0000-000000000001.wav'',
          ''00000000-0000-0000-0000-000000000001.wav'', ''recorded'') \<and>
   fst (save_recorded_audio (demo_env model_hello) 2 (tobytes [0, 1000]) empty_world) =
     Inr (''/app/audio/recorded/00000000-0000-0000-0000-000000000002.wav'',
          ''00000000-0000-0000-0000-000000000002.wav'', ''recorded'') \<and>
   ''/app/audio/recorded/00000000-0000-0000-0000-000000000001.wav'' \<noteq>
   ''/app/audio/recorded/00000000-0000-0000-0000-000000000002.wav''"
proof -
  let ?D = "demo_env model_hello"
  have h: "(1 :: uuid) \<noteq> 2" by simp
  have c: "clip = \<lparr>name = ''clip'' @ ''.'' @ ''MP3'', content = [73, 68, 51, 4]\<rparr>"
    by (simp add: clip_def)
  have d: "CHR ''.'' \<notin> set ''MP3''" by simp
  have n1: "str_uuid 1 @ ''.'' @ lower ''MP3'' = ''00000000-0000-0000-0000-000000000001.mp3''"
    and n2: "str_uuid 2 @ ''.'' @ lower ''MP3'' = ''00000000-0000-0000-0000-000000000002.mp3''"
    by (simp_all add: str_uuid_1 str_uuid_2 lower_MP3)
  have e1: "save_uploaded_file ?D 1 clip empty_world =
      (Inr (''/app/audio/uploaded/00000000-0000-0000-0000-000000000001.mp3'',
            ''00000000-0000-0000-0000-000000000001.mp3'', ''uploaded''),
       empty_world\<lparr>files := (files empty_world)
         (''/app/audio/uploaded/00000000-0000-0000-0000-000000000001.mp3'' \<mapsto> [73, 68, 51, 4])\<rparr>)"
    unfolding c save_uploaded_file_eq [OF d] n1 by (simp add: UPLOADED_DIR_demo path_join_def)
  have e2: "save_uploaded_file ?D 2 clip empty_world =
      (Inr (''/app/audio/uploaded/00000000-0000-0000-0000-000000000002.mp3'',
            ''00000000-0000-0000-0000-000000000002.mp3'', ''uploaded''),
       empty_world\<lparr>files := (files empty_world)
         (''/app/audio/uploaded/00000000-0000-0000-0000-000000000002.mp3'' \<mapsto> [73, 68, 51, 4])\<rparr>)"
    unfolding c save_uploaded_file_eq [OF d] n2 by (simp add: UPLOADED_DIR_demo path_join_def)
  have s: "36 + 2 * length [0, 1000 :: 16 word] \<le> 4294967295" by simp
  have m1: "str_uuid 1 @ ''.wav'' = ''00000000-0000-0000-0000-000000000001.wav''"
    and m2: "str_uuid 2 @ ''.wav'' = ''00000000-0000-0000-0000-000000000002.wav''"
    by (simp_all add: str_uuid_1 str_uuid_2)
  have e3: "save_recorded_audio ?D 1 (tobytes [0, 1000]) empty_world =
      (Inr (''/app/audio/recorded/00000000-0000-0000-0000-000000000001.wav'',
            ''00000000-0000-0000-0000-000000000001.wav'', ''recorded''),
       snd (save_recorded_audio ?D 1 (tobytes [0, 1000]) empty_world))"
    unfolding save_recorded_audio_ok [OF s] m1
    by (simp add: RECORDED_DIR_demo path_join_def)
  have e4: "save_recorded_audio ?D 2 (tobytes [0, 1000]) empty_world =
      (Inr (''/app/audio/recorded/00000000-0000-0000-0000-000000000002.wav'',
            ''00000000-0000-0000-0000-000000000002.wav'', ''recorded''),
       snd (save_recorded_audio ?D 2 (tobytes [0, 1000]) empty_world))"
    unfolding save_recorded_audio_ok [OF s] m2
    by (simp add: RECORDED_DIR_demo path_join_def)
  note t = distinct_ids_distinct_paths [OF h, of ?D clip empty_world clip empty_world
      "tobytes [0, 1000]" "tobytes [0, 1000]"]
  have a: "''/app/audio/uploaded/00000000-0000-0000-0000-000000000001.mp3'' \<noteq>
           ''/app/audio/uploaded/00000000-0000-0000-0000-000000000002.mp3''"
    by (rule t [THEN conjunct1, rule_format, OF conjI [OF e1 e2]])
  have b: "''/app/audio/recorded/00000000-0000-0000-0000-000000000001.wav'' \<noteq>
           ''/app/audio/recorded/00000000-0000-0000-0000-000000000002.wav''"
    by (rule t [THEN conjunct2, rule_format, OF conjI [OF e3 e4]])
  have f1: "fst (save_uploaded_file ?D 1 clip empty_world) =
     Inr (''/app/audio/uploaded/00000000-0000-0000-0000-000000000001.mp3'',
          ''00000000-0000-0000-0000-000000000001.mp3'', ''uploaded'')"
    by (simp only: e1 fst_conv)
  have f2: "fst (save_uploaded_file ?D 2 clip empty_world) =
     Inr (''/app/audio/uploaded/00000000-0000-0000-0000-000000000002.mp3'',
          ''00000000-0000-0000-0000-000000000002.mp3'', ''uploaded'')"
    by (simp only: e2 fst_conv)
  have f3: "fst (save_recorded_audio ?D 1 (tobytes [0, 1000]) empty_world) =
     Inr (''/app/audio/recorded/00000000-0000-0000-0000-000000000001.wav'',
          ''00000000-0000-0000-0000-000000000001.wav'', ''recorded'')"
    using e3 by (metis fst_conv)
  have f4: "fst (save_recorded_audio ?D 2 (tobytes [0, 1000]) empty_world) =
     Inr (''/app/audio/recorded/00000000-0000-0000-0000-000000000002.wav'',
          ''00000000-0000-0000-0000-000000000002.wav'', ''recorded'')"
    using e4 by (metis fst_conv)
  show ?thesis
    by (intro conjI h a b f1 f2 f3 f4)
qed

section \<open>A recording has an even number of bytes\<close>

text \<open>
  Claim C9. \<^verbatim>\<open>save_recorded_audio\<close> is defined on buffers of even length only. On a
  buffer of odd length the decoding into 16-bit samples raises, the function raises with it
  and the world is as before: no file is written. On a buffer of even length the decoding
  succeeds and gives half as many samples as there are bytes, the samples whose bytes the
  buffer holds.
\<close>

theorem recording_needs_even_length:
  "(length ab mod 2 = 1 \<longrightarrow>
      (\<exists>e. frombuffer ab = Inl e \<and> save_recorded_audio env u ab w = (Inl e, w))) \<and>
   (length ab mod 2 = 0 \<longrightarrow>
      (\<exists>xs. frombuffer ab = Inr xs \<and> length xs = length ab div 2 \<and> tobytes xs = ab))"
proof (intro conjI impI)
  assume "length ab mod 2 = 1"
  then show "\<exists>e. frombuffer ab = Inl e \<and> save_recorded_audio env u ab w = (Inl e, w)"
    by (simp add: frombuffer_def save_recorded_audio_def)
next
  assume "length ab mod 2 = 0"
  then show "\<exists>xs. frombuffer ab = Inr xs \<and> length xs = length ab div 2 \<and> tobytes xs = ab"
    by (simp add: frombuffer_def length_int16_le tobytes_int16_le)
qed

theorem recording_needs_even_length_witness:
  "length [1, 2, 3 :: byte] mod 2 = 1 \<and>
   save_recorded_audio (demo_env model_hello) 1 [1, 2, 3] empty_world =
     (Inl (Exn ValueError ''buffer size must be a multiple of element size''), empty_world) \<and>
   length [0x34, 0x12 :: byte] mod 2 = 0 \<and>
   frombuffer [0x34, 0x12] = Inr [0x1234]"
proof -
  have o: "length [1, 2, 3 :: byte] mod 2 = 1" by simp
  have v: "length [0x34, 0x12 :: byte] mod 2 = 0" by simp
  have f: "frombuffer [1, 2, 3] = Inl (Exn ValueError ''buffer size must be a multiple of element size'')"
    by (simp add: frombuffer_def)
  from recording_needs_even_length [of "[1, 2, 3]" "demo_env model_hello" 1 empty_world] o
  obtain e where "frombuffer [1, 2, 3] = Inl e"
    and s: "save_recorded_audio (demo_env model_hello) 1 [1, 2, 3] empty_world = (Inl e, empty_world)"
    by blast
  with f have a: "save_recorded_audio (demo_env model_hello) 1 [1, 2, 3] empty_world =
     (Inl (Exn ValueError ''buffer size must be a multiple of element size''), empty_world)"
    by simp
  from recording_needs_even_length [of "[0x34, 0x12]" "demo_env model_hello" 1 empty_world] v
  obtain xs where x: "frombuffer [0x34, 0x12] = Inr xs" and "tobytes xs = [0x34, 0x12]"
    by blast
  have "int16_le [0x34, 0x12] = [0x1234]"
    by (simp add: word_cat_eq)
  with x have b: "frombuffer [0x34, 0x12] = Inr [0x1234]"
    by (simp add: frombuffer_def)
  show ?thesis by (intro conjI o v a b)
qed

section \<open>The name of an upload does not reach its path\<close>

text \<open>
  Claim C10. The path and the contents that \<^verbatim>\<open>save_uploaded_file\<close> produces are fixed by
  the identifier, the lower-cased extension and the bytes: two uploads with the same bytes
  whose names end in extensions equal in lower case give the same result for the same
  identifier, whatever stands before the last dot of either name; the returned path is the
  \<^verbatim>\<open>uploaded\<close> directory joined with the identifier, a dot and that extension.
\<close>

theorem upload_path_ignores_stem:
  assumes "CHR ''.'' \<notin> set ext1" and "CHR ''.'' \<notin> set ext2" and "lower ext1 = lower ext2"
  shows "save_uploaded_file env u \<lparr>name = stem1 @ ''.'' @ ext1, content = bs\<rparr> w =
         save_uploaded_file env u \<lparr>name = stem2 @ ''.'' @ ext2, content = bs\<rparr> w \<and>
         fst (save_uploaded_file env u \<lparr>name = stem1 @ ''.'' @ ext1, content = bs\<rparr> w) =
           Inr (path_join (UPLOADED_DIR env) (str_uuid u @ ''.'' @ lower ext1),
                str_uuid u @ ''.'' @ lower ext1, ''uploaded'')"
  unfolding save_uploaded_file_eq [OF assms(1)] save_uploaded_file_eq [OF assms(2)] assms(3)
  by simp

theorem upload_path_ignores_stem_witness:
  "CHR ''.'' \<notin> set ''MP3'' \<and> CHR ''.'' \<notin> set ''mp3'' \<and> lower ''MP3'' = lower ''mp3'' \<and>
   save_uploaded_file (demo_env model_hello) 0x123e4567e89b12d3a456426614174000
     \<lparr>name = ''clip.MP3'', content = [73, 68, 51, 4]\<rparr> empty_world =
   save_uploaded_file (demo_env model_hello) 0x123e4567e89b12d3a456426614174000
     \<lparr>name = ''../../etc/cron.d/job.tar.mp3'', content = [73, 68, 51, 4]\<rparr> empty_world \<and>
   fst (save_uploaded_file (demo_env model_hello) 0x123e4567e89b12d3a456426614174000
     \<lparr>name = ''clip.MP3'', content = [73, 68, 51, 4]\<rparr> empty_world) =
     Inr (''/app/audio/uploaded/123e4567-e89b-12d3-a456-426614174000.mp3'',
          ''123e4567-e89b-12d3-a456-426614174000.mp3'', ''uploaded'')"
proof -
  have h1: "CHR ''.'' \<notin> set ''MP3''" and h2: "CHR ''.'' \<notin> set ''mp3''" by simp_all
  have h3: "lower ''MP3'' = lower ''mp3''" by (simp add: lower_def lower_char_def)
  have p: "path_join ''/app/audio/uploaded'' ''123e4567-e89b-12d3-a456-426614174000.mp3'' =
           ''/app/audio/uploaded/123e4567-e89b-12d3-a456-426614174000.mp3''"
    by (simp add: path_join_def)
  note t = upload_path_ignores_stem [OF h1 h2 h3, of "demo_env model_hello"
        "0x123e4567e89b12d3a456426614174000" "''clip''" "[73, 68, 51, 4]" empty_world
        "''../../etc/cron.d/job.tar''"]
  have a: "save_uploaded_file (demo_env model_hello) 0x123e4567e89b12d3a456426614174000
       \<lparr>name = ''clip.MP3'', content = [73, 68, 51, 4]\<rparr> empty_world =
     save_uploaded_file (demo_env model_hello) 0x123e4567e89b12d3a456426614174000
       \<lparr>name = ''../../etc/cron.d/job.tar.mp3'', content = [73, 68, 51, 4]\<rparr> empty_world"
    using t [THEN conjunct1] by simp
  have b: "fst (save_uploaded_file (demo_env model_hello) 0x123e4567e89b12d3a456426614174000
       \<lparr>name = ''clip.MP3'', content = [73, 68, 51, 4]\<rparr> empty_world) =
     Inr (''/app/audio/uploaded/123e4567-e89b-12d3-a456-426614174000.mp3'',
          ''123e4567-e89b-12d3-a456-426614174000.mp3'', ''uploaded'')"
    using t [THEN conjunct2] by (simp add: lower_MP3 str_uuid_demo UPLOADED_DIR_demo p)
  show ?thesis by (intro conjI h1 h2 h3 a b)
qed

end
